theory Spec2Isabelle
  imports Main
begin

section \<open>Python text conversions used by the product table\<close>

text \<open>
  The product file holds text only. The program turns integers and booleans into
  text with \<^verbatim>\<open>str\<close> (through \<^verbatim>\<open>csv.writer\<close>) and reads integers back with
  \<^verbatim>\<open>int\<close>. Python integers are unbounded, so they are \<^typ>\<open>int\<close> here. Characters
  are code points below 256. The behaviour described is that of CPython 3.11.
\<close>

definition digit_char :: "nat \<Rightarrow> char" where
  "digit_char d = char_of (48 + d)"

definition is_digit :: "char \<Rightarrow> bool" where
  "is_digit c = (48 \<le> (of_char c :: nat) \<and> (of_char c :: nat) \<le> 57)"

definition digit_val :: "char \<Rightarrow> nat" where
  "digit_val c = of_char c - 48"

function str_nat :: "nat \<Rightarrow> string" where
  "str_nat n = (if n < 10 then [digit_char n] else str_nat (n div 10) @ [digit_char (n mod 10)])"
  by pat_completeness auto
termination
  by (relation "measure id") auto

declare str_nat.simps [simp del]

text \<open>
  The decimal text of an integer: a minus sign when negative, then the digits. It is
  what \<^verbatim>\<open>str(i)\<close> returns when it returns.
\<close>

definition str_int :: "int \<Rightarrow> string" where
  "str_int i = (if i < 0 then CHR ''-'' # str_nat (nat (- i)) else str_nat (nat i))"

text \<open>
  Conversions between \<^verbatim>\<open>int\<close> and \<^verbatim>\<open>str\<close> are limited to 4300 digits
  (\<^verbatim>\<open>sys.get_int_max_str_digits()\<close>, at its default): \<^verbatim>\<open>str(i)\<close> raises
  \<^verbatim>\<open>ValueError\<close> when \<open>i\<close> has more decimal digits than that.
\<close>

definition int_max_str_digits :: int where
  "int_max_str_digits = 4300"

definition int_str_ok :: "int \<Rightarrow> bool" where
  "int_str_ok i = (int (length (str_nat (nat \<bar>i\<bar>))) \<le> int_max_str_digits)"

text \<open>\<^verbatim>\<open>str(b)\<close> for a boolean.\<close>

definition str_bool :: "bool \<Rightarrow> string" where
  "str_bool b = (if b then ''True'' else ''False'')"

text \<open>
  \<^verbatim>\<open>int(s)\<close> for a string, base ten: white space is stripped on both sides, one sign
  may follow, then digits, where single underscores may stand between two digits.
  The white space that \<^verbatim>\<open>int\<close> strips is tab, line feed, vertical tab, form feed,
  carriage return and space, and of the code points from 128 to 255 the two that are
  Unicode white space, 133 and 160; the separators 28 to 31 are not stripped.
  \<open>int_literal\<close> is the value of the literal, \<open>None\<close> when the text is not one;
  \<open>py_int\<close> adds the limit on the number of digits, leading zeros counted, sign and
  underscores not. \<open>None\<close> is the \<^verbatim>\<open>ValueError\<close> in both cases.
\<close>

definition is_space :: "char \<Rightarrow> bool" where
  "is_space c = ((of_char c :: nat) \<in> {9, 10, 11, 12, 13, 32, 133, 160})"

definition py_strip :: "string \<Rightarrow> string" where
  "py_strip s = rev (dropWhile is_space (rev (dropWhile is_space s)))"

fun digits_val :: "nat \<Rightarrow> string \<Rightarrow> nat option" where
  "digits_val acc [] = Some acc"
| "digits_val acc (c # cs) =
     (if is_digit c then digits_val (acc * 10 + digit_val c) cs
      else if c = CHR ''_'' then
        (case cs of
           [] \<Rightarrow> None
         | d # ds \<Rightarrow> if is_digit d then digits_val (acc * 10 + digit_val d) ds else None)
      else None)"

definition parse_nat :: "string \<Rightarrow> nat option" where
  "parse_nat s = (case s of
       [] \<Rightarrow> None
     | c # cs \<Rightarrow> if is_digit c then digits_val (digit_val c) cs else None)"

definition int_literal :: "string \<Rightarrow> int option" where
  "int_literal s = (case py_strip s of
       [] \<Rightarrow> None
     | c # cs \<Rightarrow>
         if c = CHR ''-'' then map_option (\<lambda>n. - int n) (parse_nat cs)
         else if c = CHR ''+'' then map_option int (parse_nat cs)
         else map_option int (parse_nat (c # cs)))"

definition py_int :: "string \<Rightarrow> int option" where
  "py_int s = (case int_literal s of
       None \<Rightarrow> None
     | Some n \<Rightarrow> if int (length (filter is_digit s)) \<le> int_max_str_digits then Some n else None)"

text \<open>
  The file is opened for reading in text mode with universal newlines, so the text
  the reader sees has a line feed for every carriage return and line feed pair and
  for every other carriage return. It is opened for writing with \<^verbatim>\<open>newline=""\<close>, so
  what is written is stored as it is. \<open>reread\<close> is what a cell that was stored
  reads back as.
\<close>

fun universal_newlines :: "bool \<Rightarrow> string \<Rightarrow> string" where
  "universal_newlines after_cr [] = []"
| "universal_newlines after_cr (c # cs) =
     (if c = CHR 0x0D then CHR 0x0A # universal_newlines True cs
      else if c = CHR 0x0A \<and> after_cr then universal_newlines False cs
      else c # universal_newlines False cs)"

definition reread :: "string \<Rightarrow> string" where
  "reread s = universal_newlines False s"

text \<open>The reader refuses a cell of more than 131072 characters (\<^verbatim>\<open>csv.field_size_limit()\<close>).\<close>

definition field_size_limit :: int where
  "field_size_limit = 131072"

section \<open>The product file\<close>

text \<open>
  The file \<^verbatim>\<open>data/products.csv\<close> is read with \<^verbatim>\<open>csv.reader\<close> and written with
  \<^verbatim>\<open>csv.writer\<close>, both in the default dialect. Its text is described by the rows
  into which the reader divides it, a blank line being the empty row, each cell
  holding the characters stored for it (quoting aside), and by whether the text
  ends with a line terminator. A text that ends inside a quoted cell is not
  described. With the file go the permissions the process has on it. The other
  states are that the directory \<^verbatim>\<open>data\<close> does not exist, and that it exists
  without the file, with or without the permission to create the file. A file that
  the program creates can be read and written by it. The text is taken to be
  in the encoding the process uses. Failures of the device (a full disk, an
  interrupted call) and a path that is not a regular file are not described.
\<close>

type_synonym row = "string list"

datatype file_state =
    NoDirectory
  | NoFile (creatable: bool)
  | File (readable: bool) (writable: bool) (terminated: bool) (stored_rows: "row list")

datatype py_exception =
    StopIteration | IndexError | KeyError | TypeError | ValueError
  | FileNotFoundError | PermissionError | csv_Error

text \<open>\<^verbatim>\<open>FileNotFoundError\<close> and \<^verbatim>\<open>PermissionError\<close> are the two that are \<^verbatim>\<open>IOError\<close>.\<close>

definition is_IOError :: "py_exception \<Rightarrow> bool" where
  "is_IOError x = (x = FileNotFoundError \<or> x = PermissionError)"

text \<open>The diagnostics the class prints, one constructor for each message.\<close>

datatype message =
    ProductFileNotFound
  | MalformedData
  | UnexpectedError py_exception
  | ProductNotFound int
  | CannotAddNonPositive
  | InvalidRemovalAmount
  | InsufficientPermissions
  | WriteIOError py_exception
  | UpdateIOError py_exception

text \<open>
  What an operation does beyond its result: a line printed, the file opened for
  appending, or the file opened for writing, which empties it. What is then written
  shows in the file state returned.
\<close>

datatype effect = Print message | Append | Rewrite

subsection \<open>Reading\<close>

text \<open>
  Opening for reading: a missing file or directory raises \<^verbatim>\<open>FileNotFoundError\<close>,
  a file without read permission \<^verbatim>\<open>PermissionError\<close>.
\<close>

definition open_read :: "file_state \<Rightarrow> py_exception + row list" where
  "open_read fs = (case fs of
       NoDirectory \<Rightarrow> Inl FileNotFoundError
     | NoFile c \<Rightarrow> Inl FileNotFoundError
     | File rd wr t rows \<Rightarrow> if rd then Inr rows else Inl PermissionError)"

text \<open>
  The reader yields the rows one at a time, each cell as it reads back, and raises
  \<^verbatim>\<open>csv.Error\<close> at a row with a cell over the size limit.
\<close>

definition oversized :: "row \<Rightarrow> bool" where
  "oversized r = list_ex (\<lambda>c. field_size_limit < int (length (reread c))) r"

definition read_row :: "row \<Rightarrow> py_exception + row" where
  "read_row r = (if oversized r then Inl csv_Error else Inr (map reread r))"

text \<open>\<^verbatim>\<open>list(reader)\<close>.\<close>

fun read_rows :: "row list \<Rightarrow> py_exception + row list" where
  "read_rows [] = Inr []"
| "read_rows (r # rs) =
     (case read_row r of
        Inl x \<Rightarrow> Inl x
      | Inr r' \<Rightarrow> (case read_rows rs of Inl x \<Rightarrow> Inl x | Inr rs' \<Rightarrow> Inr (r' # rs')))"

subsection \<open>Writing\<close>

text \<open>
  The values the program hands to the writer. The writer prints a string as it is,
  \<^verbatim>\<open>None\<close> as the empty cell, and any other value through \<^verbatim>\<open>str\<close>, which raises
  \<^verbatim>\<open>ValueError\<close> for an integer over the digit limit. The price is a Python float;
  its type is the parameter \<open>'f\<close>, and \<^verbatim>\<open>str\<close> and \<^verbatim>\<open>float\<close> on it are the parameters
  \<open>fstr\<close> and \<open>fparse\<close> of the operations that write and read it.
\<close>

datatype 'f pyval = PyStr string | PyNone | PyBool bool | PyInt int | PyFloat 'f

definition writer_text :: "('f \<Rightarrow> string) \<Rightarrow> 'f pyval \<Rightarrow> py_exception + string" where
  "writer_text fstr v = (case v of
       PyStr s \<Rightarrow> Inr s
     | PyNone \<Rightarrow> Inr []
     | PyBool b \<Rightarrow> Inr (str_bool b)
     | PyInt i \<Rightarrow> if int_str_ok i then Inr (str_int i) else Inl ValueError
     | PyFloat x \<Rightarrow> Inr (fstr x))"

text \<open>\<^verbatim>\<open>writer.writerow\<close>: the cells of one row, or the exception and nothing written.\<close>

fun writerow :: "('f \<Rightarrow> string) \<Rightarrow> 'f pyval list \<Rightarrow> py_exception + row" where
  "writerow fstr [] = Inr []"
| "writerow fstr (v # vs) =
     (case writer_text fstr v of
        Inl x \<Rightarrow> Inl x
      | Inr s \<Rightarrow> (case writerow fstr vs of Inl x \<Rightarrow> Inl x | Inr ss \<Rightarrow> Inr (s # ss)))"

text \<open>
  \<^verbatim>\<open>writer.writerows\<close>: the rows written, in order, and the exception that stopped
  it, if any. The rows before the one that raised have been written.
\<close>

fun writerows :: "('f \<Rightarrow> string) \<Rightarrow> 'f pyval list list \<Rightarrow> row list \<times> py_exception option" where
  "writerows fstr [] = ([], None)"
| "writerows fstr (r # rs) =
     (case writerow fstr r of
        Inl x \<Rightarrow> ([], Some x)
      | Inr t \<Rightarrow> (case writerows fstr rs of (ts, err) \<Rightarrow> (t # ts, err)))"

text \<open>
  The rows of a text after one more line is written at its end. After a line
  terminator, or in an empty text, the line is a row of its own. Otherwise its
  first cell continues the last cell of the last row; this is so for a first cell
  that is written without quotes, as the decimal text of an integer is.
\<close>

definition append_line :: "bool \<Rightarrow> row list \<Rightarrow> row \<Rightarrow> row list" where
  "append_line ended rows r =
     (if ended \<or> rows = [] \<or> last rows = [] then rows @ [r]
      else if r = [] then rows
      else butlast rows @ [butlast (last rows) @ [last (last rows) @ hd r] @ tl r])"

text \<open>
  Opening for appending: it needs the directory, the permission to write the file,
  or to create it when it does not exist.
\<close>

definition open_append :: "file_state \<Rightarrow> py_exception + file_state" where
  "open_append fs = (case fs of
       NoDirectory \<Rightarrow> Inl FileNotFoundError
     | NoFile c \<Rightarrow> if c then Inr (File True True True []) else Inl PermissionError
     | File rd wr t rows \<Rightarrow> if wr then Inr fs else Inl PermissionError)"

text \<open>Opening for writing empties the file.\<close>

definition open_write :: "file_state \<Rightarrow> py_exception + file_state" where
  "open_write fs = (case fs of
       NoDirectory \<Rightarrow> Inl FileNotFoundError
     | NoFile c \<Rightarrow> if c then Inr (File True True True []) else Inl PermissionError
     | File rd wr t rows \<Rightarrow> if wr then Inr (File rd wr True []) else Inl PermissionError)"

section \<open>The Product entity\<close>

definition product_columns :: row where
  "product_columns =
     [''pid'', ''is_active'', ''inventory'', ''pname'', ''pdescription'', ''pprice'',
      ''added_date'', ''ptags'']"

text \<open>
  The attributes of a \<^verbatim>\<open>Product\<close> object. A text attribute is \<open>None\<close> when it holds
  Python's \<^verbatim>\<open>None\<close>, which is what \<^verbatim>\<open>csv.DictReader\<close> gives for a column that a
  short row does not have.
\<close>

record 'f product =
  pid :: int
  is_active :: bool
  inventory :: int
  pname :: "string option"
  pdescription :: "string option"
  pprice :: 'f
  added_date :: "string option"
  ptags :: "string option"

definition from_existing ::
  "int \<Rightarrow> bool \<Rightarrow> int \<Rightarrow> string option \<Rightarrow> string option \<Rightarrow> 'f \<Rightarrow> string option \<Rightarrow>
   string option \<Rightarrow> 'f product" where
  "from_existing p a i n d pr ad t =
     \<lparr>pid = p, is_active = a, inventory = i, pname = n, pdescription = d, pprice = pr,
      added_date = ad, ptags = t\<rparr>"

text \<open>
  \<^verbatim>\<open>_generate_pid\<close>: the header is skipped with \<^verbatim>\<open>next(reader)\<close>, which raises
  \<^verbatim>\<open>StopIteration\<close> when there is no row at all, and the rows after it are counted;
  only \<^verbatim>\<open>FileNotFoundError\<close> is handled.
\<close>

definition generate_pid :: "file_state \<Rightarrow> py_exception + int" where
  "generate_pid fs = (case open_read fs of
       Inl x \<Rightarrow> if x = FileNotFoundError then Inr 1 else Inl x
     | Inr raw \<Rightarrow>
         (case read_rows raw of
            Inl x \<Rightarrow> Inl x
          | Inr [] \<Rightarrow> Inl StopIteration
          | Inr (header # rows) \<Rightarrow> Inr (int (length rows) + 1)))"

text \<open>\<^verbatim>\<open>_file_exists\<close>: only \<^verbatim>\<open>FileNotFoundError\<close> is handled.\<close>

definition file_exists :: "file_state \<Rightarrow> py_exception + bool" where
  "file_exists fs = (case open_read fs of
       Inl x \<Rightarrow> if x = FileNotFoundError then Inr False else Inl x
     | Inr raw \<Rightarrow> Inr True)"

definition text_val :: "string option \<Rightarrow> 'f pyval" where
  "text_val v = (case v of None \<Rightarrow> PyNone | Some s \<Rightarrow> PyStr s)"

text \<open>The row that \<^verbatim>\<open>_write_to_file\<close> hands to the writer.\<close>

definition product_row :: "'f product \<Rightarrow> 'f pyval list" where
  "product_row e =
     [PyInt (pid e), PyBool (is_active e), PyInt (inventory e), text_val (pname e),
      text_val (pdescription e), PyFloat (pprice e), text_val (added_date e),
      text_val (ptags e)]"

text \<open>The three handlers of \<^verbatim>\<open>_write_to_file\<close>, in their order.\<close>

definition write_handler :: "py_exception \<Rightarrow> effect" where
  "write_handler x =
     (if x = PermissionError then Print InsufficientPermissions
      else if is_IOError x then Print (WriteIOError x)
      else Print (UnexpectedError x))"

text \<open>
  \<^verbatim>\<open>_write_to_file\<close>. An exception raised by the writer leaves in the file what was
  written before it.
\<close>

definition write_to_file :: "('f \<Rightarrow> string) \<Rightarrow> 'f product \<Rightarrow> file_state \<Rightarrow> file_state \<times> effect list" where
  "write_to_file fstr e fs =
     (case file_exists fs of
        Inl x \<Rightarrow> (fs, [write_handler x])
      | Inr ex \<Rightarrow>
          (let write_header = \<not> ex in
           case open_append fs of
             Inl x \<Rightarrow> (fs, [write_handler x])
           | Inr f \<Rightarrow>
               (let rows1 = (if write_header
                             then append_line (terminated f) (stored_rows f) product_columns
                             else stored_rows f);
                    ended1 = (write_header \<or> terminated f)
                in case writerow fstr (product_row e) of
                     Inl x \<Rightarrow> (File (readable f) (writable f) ended1 rows1, [Append, write_handler x])
                   | Inr r \<Rightarrow>
                       (File (readable f) (writable f) True (append_line ended1 rows1 r),
                        [Append]))))"

text \<open>
  The constructor. The date stamp \<^verbatim>\<open>datetime.now().strftime("%Y-%m-%d")\<close> is the
  parameter \<open>today\<close>.
\<close>

definition Product_init ::
  "('f \<Rightarrow> string) \<Rightarrow> string \<Rightarrow> string \<Rightarrow> string \<Rightarrow> int \<Rightarrow> 'f \<Rightarrow> string \<Rightarrow> file_state \<Rightarrow>
   py_exception + ('f product \<times> file_state \<times> effect list)" where
  "Product_init fstr today name descr stock price tags fs =
     (case generate_pid fs of
        Inl x \<Rightarrow> Inl x
      | Inr p \<Rightarrow>
          (let e = \<lparr>pid = p, is_active = True, inventory = stock, pname = Some name,
                    pdescription = Some descr, pprice = price, added_date = Some today,
                    ptags = Some tags\<rparr>
           in Inr (e, write_to_file fstr e fs)))"

text \<open>
  The loop of \<^verbatim>\<open>_update_file\<close> over the rows read, the header among them. Reading
  \<^verbatim>\<open>row[0]\<close> of a blank row raises \<^verbatim>\<open>IndexError\<close>, \<^verbatim>\<open>str(self.pid)\<close> may raise
  \<^verbatim>\<open>ValueError\<close>, and assigning beyond the end of a short row raises
  \<^verbatim>\<open>IndexError\<close>. The new cells are the attribute values themselves; the cells
  at 0 and 6, the id and the date, are not assigned.
\<close>

definition assign_cells :: "'f product \<Rightarrow> 'f pyval list \<Rightarrow> 'f pyval list" where
  "assign_cells e r =
     r[1 := PyBool (is_active e), 2 := PyInt (inventory e), 3 := text_val (pname e),
       4 := text_val (pdescription e), 5 := PyFloat (pprice e), 7 := text_val (ptags e)]"

fun update_rows :: "'f product \<Rightarrow> 'f pyval list list \<Rightarrow> py_exception + 'f pyval list list" where
  "update_rows e [] = Inr []"
| "update_rows e (r # rows) =
     (case r of
        [] \<Rightarrow> Inl IndexError
      | c # cs \<Rightarrow>
          if \<not> int_str_ok (pid e) then Inl ValueError
          else if c = PyStr (str_int (pid e)) then
            (if length r < 8 then Inl IndexError
             else Inr (assign_cells e r # rows))
          else (case update_rows e rows of
                  Inl x \<Rightarrow> Inl x
                | Inr rows' \<Rightarrow> Inr (r # rows')))"

text \<open>The three handlers of \<^verbatim>\<open>_update_file\<close>, in their order.\<close>

definition update_handler :: "py_exception \<Rightarrow> effect" where
  "update_handler x =
     (if x = FileNotFoundError then Print ProductFileNotFound
      else if is_IOError x then Print (UpdateIOError x)
      else Print (UnexpectedError x))"

text \<open>
  \<^verbatim>\<open>_update_file\<close>: an exception before the file is opened for writing leaves the
  file as it was; one raised by the writer leaves in the file the rows written
  before it.
\<close>

definition update_file :: "('f \<Rightarrow> string) \<Rightarrow> 'f product \<Rightarrow> file_state \<Rightarrow> file_state \<times> effect list" where
  "update_file fstr e fs =
     (case open_read fs of
        Inl x \<Rightarrow> (fs, [update_handler x])
      | Inr raw \<Rightarrow>
          (case read_rows raw of
             Inl x \<Rightarrow> (fs, [update_handler x])
           | Inr rows \<Rightarrow>
               (case update_rows e (map (map PyStr) rows) of
                  Inl x \<Rightarrow> (fs, [update_handler x])
                | Inr vals \<Rightarrow>
                    (case open_write fs of
                       Inl x \<Rightarrow> (fs, [update_handler x])
                     | Inr f \<Rightarrow>
                         (case writerows fstr vals of
                            (written, err) \<Rightarrow>
                              (File (readable f) (writable f) True written,
                               Rewrite # (case err of None \<Rightarrow> [] | Some x \<Rightarrow> [update_handler x])))))))"

subsection \<open>Setters and inventory operations\<close>

text \<open>Each returns the object after the call, the file after the call and the effects.\<close>

definition set_is_active ::
  "('f \<Rightarrow> string) \<Rightarrow> bool \<Rightarrow> 'f product \<Rightarrow> file_state \<Rightarrow> 'f product \<times> file_state \<times> effect list" where
  "set_is_active fstr v e fs = (let e' = e\<lparr>is_active := v\<rparr> in (e', update_file fstr e' fs))"

definition set_pname ::
  "('f \<Rightarrow> string) \<Rightarrow> string \<Rightarrow> 'f product \<Rightarrow> file_state \<Rightarrow> 'f product \<times> file_state \<times> effect list" where
  "set_pname fstr v e fs = (let e' = e\<lparr>pname := Some v\<rparr> in (e', update_file fstr e' fs))"

definition set_pdescription ::
  "('f \<Rightarrow> string) \<Rightarrow> string \<Rightarrow> 'f product \<Rightarrow> file_state \<Rightarrow> 'f product \<times> file_state \<times> effect list" where
  "set_pdescription fstr v e fs =
     (let e' = e\<lparr>pdescription := Some v\<rparr> in (e', update_file fstr e' fs))"

definition set_pprice ::
  "('f \<Rightarrow> string) \<Rightarrow> 'f \<Rightarrow> 'f product \<Rightarrow> file_state \<Rightarrow> 'f product \<times> file_state \<times> effect list" where
  "set_pprice fstr v e fs = (let e' = e\<lparr>pprice := v\<rparr> in (e', update_file fstr e' fs))"

definition set_ptags ::
  "('f \<Rightarrow> string) \<Rightarrow> string \<Rightarrow> 'f product \<Rightarrow> file_state \<Rightarrow> 'f product \<times> file_state \<times> effect list" where
  "set_ptags fstr v e fs = (let e' = e\<lparr>ptags := Some v\<rparr> in (e', update_file fstr e' fs))"

definition add_inventory ::
  "('f \<Rightarrow> string) \<Rightarrow> int \<Rightarrow> 'f product \<Rightarrow> file_state \<Rightarrow> 'f product \<times> file_state \<times> effect list" where
  "add_inventory fstr num e fs =
     (if num > 0 then
        (let e' = e\<lparr>inventory := inventory e + num\<rparr> in (e', update_file fstr e' fs))
      else (e, fs, [Print CannotAddNonPositive]))"

definition remove_inventory ::
  "('f \<Rightarrow> string) \<Rightarrow> int \<Rightarrow> 'f product \<Rightarrow> file_state \<Rightarrow> 'f product \<times> file_state \<times> effect list" where
  "remove_inventory fstr num e fs =
     (if num > 0 \<and> num \<le> inventory e then
        (let e' = e\<lparr>inventory := inventory e - num\<rparr> in (e', update_file fstr e' fs))
      else (e, fs, [Print InvalidRemovalAmount]))"

subsection \<open>Lookup by id\<close>

text \<open>
  \<^verbatim>\<open>csv.DictReader\<close> takes the first row as the field names and turns every later
  row that is not blank into a dictionary: the names zipped with the cells, a later
  duplicate name overriding an earlier one, and \<^verbatim>\<open>None\<close> under every name beyond
  the end of the row. Cells beyond the last name go under the key \<^verbatim>\<open>None\<close>, which no
  lookup here uses.
\<close>

definition DictReader_row :: "row \<Rightarrow> row \<Rightarrow> (string \<rightharpoonup> string option)" where
  "DictReader_row fieldnames r =
     fold (\<lambda>k d. d(k \<mapsto> None)) (drop (length r) fieldnames)
       (fold (\<lambda>(k, v) d. d(k \<mapsto> Some v)) (zip fieldnames r) Map.empty)"

definition bind_exc :: "'e + 'a \<Rightarrow> ('a \<Rightarrow> 'e + 'b) \<Rightarrow> 'e + 'b" where
  "bind_exc m f = (case m of Inl x \<Rightarrow> Inl x | Inr v \<Rightarrow> f v)"

definition getitem :: "(string \<rightharpoonup> string option) \<Rightarrow> string \<Rightarrow> py_exception + string option" where
  "getitem d k = (case d k of None \<Rightarrow> Inl KeyError | Some v \<Rightarrow> Inr v)"

definition int_cell :: "string option \<Rightarrow> py_exception + int" where
  "int_cell v = (case v of
       None \<Rightarrow> Inl TypeError
     | Some s \<Rightarrow> (case py_int s of None \<Rightarrow> Inl ValueError | Some n \<Rightarrow> Inr n))"

definition float_cell :: "(string \<Rightarrow> 'f option) \<Rightarrow> string option \<Rightarrow> py_exception + 'f" where
  "float_cell fparse v = (case v of
       None \<Rightarrow> Inl TypeError
     | Some s \<Rightarrow> (case fparse s of None \<Rightarrow> Inl ValueError | Some x \<Rightarrow> Inr x))"

text \<open>The call of \<^verbatim>\<open>from_existing\<close> in \<^verbatim>\<open>get_product\<close>, its arguments evaluated in order.\<close>

definition hydrate :: "(string \<Rightarrow> 'f option) \<Rightarrow> (string \<rightharpoonup> string option) \<Rightarrow> py_exception + 'f product" where
  "hydrate fparse d =
     bind_exc (bind_exc (getitem d ''pid'') int_cell) (\<lambda>p.
     bind_exc (getitem d ''is_active'') (\<lambda>a.
     bind_exc (bind_exc (getitem d ''inventory'') int_cell) (\<lambda>i.
     bind_exc (getitem d ''pname'') (\<lambda>n.
     bind_exc (getitem d ''pdescription'') (\<lambda>ds.
     bind_exc (bind_exc (getitem d ''pprice'') (float_cell fparse)) (\<lambda>pr.
     bind_exc (getitem d ''added_date'') (\<lambda>ad.
     bind_exc (getitem d ''ptags'') (\<lambda>t.
       Inr (from_existing p (a = Some ''True'') i n ds pr ad t)))))))))"

text \<open>
  The loop of \<^verbatim>\<open>get_product\<close> over the rows after the field names, each read when the
  loop comes to it.
\<close>

fun scan_rows ::
  "(string \<Rightarrow> 'f option) \<Rightarrow> row \<Rightarrow> int \<Rightarrow> row list \<Rightarrow> py_exception + 'f product option" where
  "scan_rows fparse fieldnames p [] = Inr None"
| "scan_rows fparse fieldnames p (raw # rows) =
     (case read_row raw of
        Inl x \<Rightarrow> Inl x
      | Inr r \<Rightarrow>
          if r = [] then scan_rows fparse fieldnames p rows
          else
            (let d = DictReader_row fieldnames r in
             case bind_exc (getitem d ''pid'') int_cell of
               Inl x \<Rightarrow> Inl x
             | Inr n \<Rightarrow>
                 if n = p then
                   (case hydrate fparse d of Inl x \<Rightarrow> Inl x | Inr e \<Rightarrow> Inr (Some e))
                 else scan_rows fparse fieldnames p rows))"

text \<open>The three handlers of \<^verbatim>\<open>get_product\<close>, in their order.\<close>

definition get_handler :: "py_exception \<Rightarrow> effect" where
  "get_handler x =
     (if x = FileNotFoundError then Print ProductFileNotFound
      else if x = ValueError then Print MalformedData
      else Print (UnexpectedError x))"

text \<open>
  The line printed after the loop. It shows the id, so building it raises
  \<^verbatim>\<open>ValueError\<close> for an id over the digit limit, inside the \<^verbatim>\<open>try\<close>.
\<close>

definition not_found :: "int \<Rightarrow> effect" where
  "not_found p = (if int_str_ok p then Print (ProductNotFound p) else get_handler ValueError)"

definition get_product ::
  "(string \<Rightarrow> 'f option) \<Rightarrow> int \<Rightarrow> file_state \<Rightarrow> 'f product option \<times> effect list" where
  "get_product fparse p fs =
     (case open_read fs of
        Inl x \<Rightarrow> (None, [get_handler x])
      | Inr [] \<Rightarrow> (None, [not_found p])
      | Inr (first # rows) \<Rightarrow>
          (case read_row first of
             Inl x \<Rightarrow> (None, [get_handler x])
           | Inr fieldnames \<Rightarrow>
               (case scan_rows fparse fieldnames p rows of
                  Inr (Some e) \<Rightarrow> (Some e, [])
                | Inr None \<Rightarrow> (None, [not_found p])
                | Inl x \<Rightarrow> (None, [get_handler x]))))"

section \<open>Notions used to state the properties\<close>

text \<open>The rows of the file after the first one; a file that does not exist has none.\<close>

definition data_row_count :: "file_state \<Rightarrow> nat" where
  "data_row_count fs = (case fs of File rd wr t rows \<Rightarrow> length rows - 1 | _ \<Rightarrow> 0)"

text \<open>The rows of the file as they read back, whatever the permissions.\<close>

definition rows_read :: "file_state \<Rightarrow> row list" where
  "rows_read fs = (case fs of File rd wr t rows \<Rightarrow> map (map reread) rows | _ \<Rightarrow> [])"

text \<open>The public operations on an existing object, and a sequence of calls.\<close>

datatype 'f operation =
    SetActive bool
  | SetName string
  | SetDescription string
  | SetPrice 'f
  | SetTags string
  | AddInventory int
  | RemoveInventory int

fun apply_op ::
  "('f \<Rightarrow> string) \<Rightarrow> 'f operation \<Rightarrow> 'f product \<Rightarrow> file_state \<Rightarrow> 'f product \<times> file_state \<times> effect list" where
  "apply_op fstr (SetActive v) e fs = set_is_active fstr v e fs"
| "apply_op fstr (SetName v) e fs = set_pname fstr v e fs"
| "apply_op fstr (SetDescription v) e fs = set_pdescription fstr v e fs"
| "apply_op fstr (SetPrice v) e fs = set_pprice fstr v e fs"
| "apply_op fstr (SetTags v) e fs = set_ptags fstr v e fs"
| "apply_op fstr (AddInventory n) e fs = add_inventory fstr n e fs"
| "apply_op fstr (RemoveInventory n) e fs = remove_inventory fstr n e fs"

fun apply_ops ::
  "('f \<Rightarrow> string) \<Rightarrow> 'f operation list \<Rightarrow> 'f product \<Rightarrow> file_state \<Rightarrow> 'f product \<times> file_state \<times> effect list" where
  "apply_ops fstr [] e fs = (e, fs, [])"
| "apply_ops fstr (op # ops) e fs =
     (case apply_op fstr op e fs of
        (e1, fs1, eff1) \<Rightarrow>
          (case apply_ops fstr ops e1 fs1 of (e2, fs2, eff2) \<Rightarrow> (e2, fs2, eff1 @ eff2)))"

text \<open>
  A row stores its id the way the program writes it when its first cell is the
  decimal text of the integer that \<^verbatim>\<open>int\<close> reads from it. A table is in the
  program's own format when the file can be read, its first row is the column names
  and every row after it that is not blank stores its id that way.
\<close>

definition canonical_id :: "row \<Rightarrow> bool" where
  "canonical_id r = (case r of
       [] \<Rightarrow> True
     | c # cs \<Rightarrow> (case py_int c of None \<Rightarrow> False | Some n \<Rightarrow> c = str_int n))"

definition own_format :: "file_state \<Rightarrow> bool" where
  "own_format fs = (case open_read fs of
       Inl x \<Rightarrow> False
     | Inr raw \<Rightarrow>
         (case read_rows raw of
            Inl x \<Rightarrow> False
          | Inr [] \<Rightarrow> False
          | Inr (h # rows) \<Rightarrow> h = product_columns \<and> list_all canonical_id rows))"

text \<open>
  The object is in sync with its stored row when looking its id up gives back an
  object with exactly its attribute values.
\<close>

definition in_sync :: "(string \<Rightarrow> 'f option) \<Rightarrow> 'f product \<Rightarrow> file_state \<Rightarrow> bool" where
  "in_sync fparse e fs = (get_product fparse (pid e) fs = (Some e, []))"

text \<open>
  The row that \<^verbatim>\<open>_update_file\<close> looks for: one whose first cell is \<^verbatim>\<open>str(pid)\<close>.
  The row that \<^verbatim>\<open>get_product\<close> looks for: one that is not blank and whose
  \<^verbatim>\<open>pid\<close> column reads as the integer asked for. Both are said of rows as read.
\<close>

definition update_target :: "int \<Rightarrow> row \<Rightarrow> bool" where
  "update_target p r = (case r of [] \<Rightarrow> False | c # cs \<Rightarrow> int_str_ok p \<and> c = str_int p)"

definition lookup_target :: "row \<Rightarrow> int \<Rightarrow> row \<Rightarrow> bool" where
  "lookup_target fieldnames p r =
     (r \<noteq> [] \<and> bind_exc (getitem (DictReader_row fieldnames r) ''pid'') int_cell = Inr p)"

definition no_lookup_target :: "int \<Rightarrow> file_state \<Rightarrow> bool" where
  "no_lookup_target p fs = (case rows_read fs of
       [] \<Rightarrow> True
     | fieldnames # rows \<Rightarrow> list_all (\<lambda>r. \<not> lookup_target fieldnames p r) rows)"

definition no_update_target :: "int \<Rightarrow> file_state \<Rightarrow> bool" where
  "no_update_target p fs = list_all (\<lambda>r. \<not> update_target p r) (rows_read fs)"

text \<open>
  The file can be read to its end, and every row after the field names is blank or
  has a \<^verbatim>\<open>pid\<close> cell that reads as an integer.
\<close>

definition pid_readable :: "row \<Rightarrow> row \<Rightarrow> bool" where
  "pid_readable fieldnames r =
     (r = [] \<or>
      (case bind_exc (getitem (DictReader_row fieldnames r) ''pid'') int_cell of
         Inl x \<Rightarrow> False
       | Inr n \<Rightarrow> True))"

definition pids_readable :: "file_state \<Rightarrow> bool" where
  "pids_readable fs = (case open_read fs of
       Inl x \<Rightarrow> False
     | Inr raw \<Rightarrow>
         (case read_rows raw of
            Inl x \<Rightarrow> False
          | Inr [] \<Rightarrow> True
          | Inr (fieldnames # rows) \<Rightarrow> list_all (pid_readable fieldnames) rows))"

text \<open>
  A text is plain when it reads back from the file as it was written: it has no
  carriage return and is within the size limit of a cell.
\<close>

definition plain_text :: "string \<Rightarrow> bool" where
  "plain_text s = (CHR 0x0D \<notin> set s \<and> int (length s) \<le> field_size_limit)"

text \<open>A price reads back from its own text: the text is plain and \<^verbatim>\<open>float\<close> gives the price.\<close>

definition price_text_ok :: "('f \<Rightarrow> string) \<Rightarrow> (string \<Rightarrow> 'f option) \<Rightarrow> 'f \<Rightarrow> bool" where
  "price_text_ok fstr fparse p = (fparse (fstr p) = Some p \<and> plain_text (fstr p))"

subsection \<open>Notions used in the proofs\<close>

text \<open>
  A cell is as read when reading it again changes nothing, as is every cell that
  the reader has yielded. A row is plain when each of its cells is a plain text;
  the reader yields a plain row as it is stored.
\<close>

definition as_read :: "row \<Rightarrow> bool" where
  "as_read r = list_all (\<lambda>c. reread c = c) r"

definition plain_row :: "row \<Rightarrow> bool" where
  "plain_row r = list_all plain_text r"

text \<open>
  The cells of the row that \<^verbatim>\<open>_update_file\<close> has assigned to, as the writer prints
  them, and the rows that are in the file after the writer has run over the rows
  of the loop: all of them, or those before the assigned row when \<^verbatim>\<open>str\<close> of the
  inventory raises.
\<close>

definition entity_cells :: "('f \<Rightarrow> string) \<Rightarrow> 'f product \<Rightarrow> row \<Rightarrow> row" where
  "entity_cells fstr e r =
     r[1 := str_bool (is_active e), 2 := str_int (inventory e),
       3 := (case pname e of None \<Rightarrow> [] | Some s \<Rightarrow> s),
       4 := (case pdescription e of None \<Rightarrow> [] | Some s \<Rightarrow> s),
       5 := fstr (pprice e), 7 := (case ptags e of None \<Rightarrow> [] | Some s \<Rightarrow> s)]"

fun written_rows :: "('f \<Rightarrow> string) \<Rightarrow> 'f product \<Rightarrow> row list \<Rightarrow> row list" where
  "written_rows fstr e [] = []"
| "written_rows fstr e (r # rows) =
     (if update_target (pid e) r
      then (if int_str_ok (inventory e) then entity_cells fstr e r # rows else [])
      else r # written_rows fstr e rows)"

text \<open>A text attribute after a setter: the one before, or a plain text.\<close>

definition kept_or_plain :: "string option \<Rightarrow> string option \<Rightarrow> bool" where
  "kept_or_plain new old = (new = old \<or> (case new of None \<Rightarrow> False | Some s \<Rightarrow> plain_text s))"

subsection \<open>Concrete data for the examples\<close>

text \<open>
  For concrete evaluation the price type is instantiated with prices that are whole
  numbers of magnitude below \<open>10\<^sup>1\<^sup>6\<close>: such a float prints as its integer digits
  followed by \<^verbatim>\<open>.0\<close>. Of the texts that \<^verbatim>\<open>float\<close> accepts, this instance reads
  back that form only; the examples use no other.
\<close>

definition whole_price_str :: "int \<Rightarrow> string" where
  "whole_price_str n = str_int n @ ''.0''"

definition whole_price_parse :: "string \<Rightarrow> int option" where
  "whole_price_parse s = (case int_literal (take (length s - 2) s) of
       None \<Rightarrow> None
     | Some n \<Rightarrow> if s = whole_price_str n then Some n else None)"

definition widget :: "int product" where
  "widget =
     \<lparr>pid = 1, is_active = True, inventory = 10, pname = Some ''Widget'',
      pdescription = Some ''A widget'', pprice = 9, added_date = Some ''2024-01-01'',
      ptags = Some ''tag1|tag2''\<rparr>"

definition widget_row :: row where
  "widget_row = [''1'', ''True'', ''10'', ''Widget'', ''A widget'', ''9.0'', ''2024-01-01'', ''tag1|tag2'']"

definition widget_table :: file_state where
  "widget_table = File True True True [product_columns, widget_row]"

text \<open>The same table with the id written with a leading zero, as an editor may leave it.\<close>

definition padded_table :: file_state where
  "padded_table = File True True True [product_columns, widget_row[0 := ''01'']]"

text \<open>A table whose only data row has an id cell that is not a number.\<close>

definition damaged_table :: file_state where
  "damaged_table = File True True True [product_columns, widget_row[0 := ''abc'']]"

text \<open>
  A table whose first row names the fourth column \<^verbatim>\<open>pdescription\<close> and the fifth
  \<^verbatim>\<open>pname\<close>, and the object that a lookup of id 1 in it gives.
\<close>

definition relabelled_table :: file_state where
  "relabelled_table =
     File True True True
       [product_columns[3 := ''pdescription'', 4 := ''pname''], widget_row[4 := ''Widget'']]"

definition plain_widget :: "int product" where
  "plain_widget = widget\<lparr>pdescription := Some ''Widget''\<rparr>"

text \<open>The file that exists and has no line, and the same table without a final line terminator.\<close>

definition empty_file :: file_state where
  "empty_file = File True True True []"


text \<open>A name with a carriage return in it, and the name it reads back as.\<close>

definition cr_name :: string where
  "cr_name = ''Wid'' @ [CHR 0x0D] @ ''get''"

definition lf_name :: string where
  "lf_name = ''Wid'' @ [CHR 0x0A] @ ''get''"

section \<open>Integers and their text\<close>

lemma digit_val_digit_char: "d < 10 \<Longrightarrow> digit_val (digit_char d) = d"
  by (simp add: digit_val_def digit_char_def)

lemma is_digit_digit_char: "d < 10 \<Longrightarrow> is_digit (digit_char d)"
  by (simp add: is_digit_def digit_char_def)

lemma is_digit_not_space: "is_digit c \<Longrightarrow> \<not> is_space c"
  by (auto simp: is_digit_def is_space_def)

lemma is_digit_not_sign: "is_digit c \<Longrightarrow> c \<noteq> CHR ''-'' \<and> c \<noteq> CHR ''+''"
  by (auto simp: is_digit_def)

lemma is_digit_not_cr: "is_digit c \<Longrightarrow> c \<noteq> CHR 0x0D"
  by (auto simp: is_digit_def)

lemma str_nat_digits: "list_all is_digit (str_nat n)"
proof (induction n rule: str_nat.induct)
  case (1 n)
  show ?case
  proof (cases "n < 10")
    case True
    then show ?thesis by (simp add: str_nat.simps [of n] is_digit_digit_char)
  next
    case False
    with 1 show ?thesis by (simp add: str_nat.simps [of n] is_digit_digit_char)
  qed
qed

lemma str_nat_nonempty: "str_nat n \<noteq> []"
  by (subst str_nat.simps) simp

lemma digits_val_snoc:
  "list_all is_digit ds \<Longrightarrow> is_digit d \<Longrightarrow>
   digits_val acc (ds @ [d]) = map_option (\<lambda>v. v * 10 + digit_val d) (digits_val acc ds)"
  by (induction ds arbitrary: acc) auto

lemma parse_nat_snoc:
  "list_all is_digit ds \<Longrightarrow> ds \<noteq> [] \<Longrightarrow> is_digit d \<Longrightarrow>
   parse_nat (ds @ [d]) = map_option (\<lambda>v. v * 10 + digit_val d) (parse_nat ds)"
  by (cases ds) (auto simp: parse_nat_def digits_val_snoc)

lemma parse_nat_str_nat: "parse_nat (str_nat n) = Some n"
proof (induction n rule: str_nat.induct)
  case (1 n)
  show ?case
  proof (cases "n < 10")
    case True
    then show ?thesis
      by (simp add: str_nat.simps [of n] parse_nat_def is_digit_digit_char digit_val_digit_char)
  next
    case False
    then have "parse_nat (str_nat (n div 10)) = Some (n div 10)" using 1 by simp
    with False show ?thesis
      by (simp add: str_nat.simps [of n] parse_nat_snoc str_nat_digits str_nat_nonempty
            is_digit_digit_char digit_val_digit_char)
  qed
qed

lemma py_strip_unspaced:
  assumes "s \<noteq> []" "\<not> is_space (hd s)" "\<not> is_space (last s)"
  shows "py_strip s = s"
proof -
  from assms have "dropWhile is_space s = s" by (cases s) auto
  moreover from assms have "dropWhile is_space (rev s) = rev s"
    by (cases "rev s") (auto simp: hd_rev)
  ultimately show ?thesis by (simp add: py_strip_def)
qed

lemma str_nat_last_digit: "is_digit (last (str_nat n))"
  using str_nat_digits [of n] str_nat_nonempty [of n]
  by (simp add: list_all_iff)

lemma str_nat_hd_digit: "is_digit (hd (str_nat n))"
  using str_nat_digits [of n] str_nat_nonempty [of n]
  by (cases "str_nat n") auto

lemma minus_not_space: "\<not> is_space (CHR ''-'')"
  by (simp add: is_space_def)

lemma py_strip_str_int: "py_strip (str_int i) = str_int i"
proof (rule py_strip_unspaced)
  show "str_int i \<noteq> []" by (simp add: str_int_def str_nat_nonempty)
  show "\<not> is_space (hd (str_int i))"
  proof (cases "i < 0")
    case True
    then show ?thesis by (simp add: str_int_def minus_not_space)
  next
    case False
    then show ?thesis by (simp add: str_int_def is_digit_not_space str_nat_hd_digit)
  qed
  show "\<not> is_space (last (str_int i))"
    by (simp add: str_int_def is_digit_not_space str_nat_nonempty str_nat_last_digit)
qed

lemma int_literal_str_int: "int_literal (str_int i) = Some i"
proof (cases "i < 0")
  case True
  then show ?thesis
    unfolding int_literal_def py_strip_str_int
    by (simp add: str_int_def parse_nat_str_nat)
next
  case False
  obtain c cs where cs: "str_nat (nat i) = c # cs"
    using str_nat_nonempty [of "nat i"] by (cases "str_nat (nat i)") auto
  then have "is_digit c" using str_nat_hd_digit [of "nat i"] by simp
  then have "c \<noteq> CHR ''-''" "c \<noteq> CHR ''+''" using is_digit_not_sign by auto
  moreover have "parse_nat (c # cs) = Some (nat i)" using parse_nat_str_nat [of "nat i"] cs by simp
  ultimately show ?thesis
    unfolding int_literal_def py_strip_str_int using False cs
    by (simp add: str_int_def)
qed

lemma filter_digits_str_nat: "filter is_digit (str_nat n) = str_nat n"
  using str_nat_digits [of n] by (simp add: list_all_iff)

lemma digits_of_str_int: "length (filter is_digit (str_int i)) = length (str_nat (nat \<bar>i\<bar>))"
proof (cases "i < 0")
  case True
  then have "nat \<bar>i\<bar> = nat (- i)" by simp
  with True show ?thesis by (simp add: str_int_def filter_digits_str_nat is_digit_def)
next
  case False
  then have "nat \<bar>i\<bar> = nat i" by simp
  with False show ?thesis by (simp add: str_int_def filter_digits_str_nat)
qed

lemma py_int_str_int: "int_str_ok i \<Longrightarrow> py_int (str_int i) = Some i"
  by (simp add: py_int_def int_literal_str_int digits_of_str_int int_str_ok_def)

lemma py_int_canonical: "py_int (str_int n) = Some m \<Longrightarrow> m = n \<and> int_str_ok n"
  by (auto simp: py_int_def int_literal_str_int digits_of_str_int int_str_ok_def split: if_splits)

lemma str_int_inject:
  assumes "str_int a = str_int b"
  shows "a = b"
proof -
  have "Some a = int_literal (str_int a)" by (simp only: int_literal_str_int)
  also have "\<dots> = int_literal (str_int b)" by (simp only: assms)
  also have "\<dots> = Some b" by (simp only: int_literal_str_int)
  finally show ?thesis by simp
qed

lemma int_literal_pid: "int_literal ''pid'' = None"
  by code_simp

lemma str_int_not_pid: "str_int p \<noteq> ''pid''"
  using int_literal_str_int [of p] int_literal_pid by auto

lemma str_bool_True: "(str_bool b = ''True'') = b"
  by (simp add: str_bool_def)

lemma whole_price_roundtrip: "whole_price_parse (whole_price_str n) = Some n"
  by (simp add: whole_price_parse_def whole_price_str_def int_literal_str_int)

section \<open>Text that reads back as written\<close>

lemma universal_newlines_plain: "CHR 0x0D \<notin> set s \<Longrightarrow> universal_newlines False s = s"
  by (induction s) auto

lemma universal_newlines_no_cr: "CHR 0x0D \<notin> set (universal_newlines b s)"
  by (induction s arbitrary: b) auto

lemma reread_plain: "CHR 0x0D \<notin> set s \<Longrightarrow> reread s = s"
  by (simp add: reread_def universal_newlines_plain)

lemma reread_no_cr: "CHR 0x0D \<notin> set (reread s)"
  by (simp add: reread_def universal_newlines_no_cr)

lemma reread_again: "reread (reread s) = reread s"
  by (rule reread_plain) (rule reread_no_cr)

lemma str_nat_no_cr: "CHR 0x0D \<notin> set (str_nat n)"
  using str_nat_digits [of n] is_digit_not_cr by (auto simp: list_all_iff)

lemma str_int_no_cr: "CHR 0x0D \<notin> set (str_int n)"
  by (simp add: str_int_def str_nat_no_cr)

section \<open>Rows as read and as written\<close>

lemma read_rows_length: "read_rows raw = Inr rows \<Longrightarrow> length rows = length raw"
proof (induction raw arbitrary: rows)
  case Nil
  then show ?case by simp
next
  case (Cons r raw)
  then show ?case by (auto split: sum.splits)
qed

lemma writerow_text: "writerow fstr (map PyStr r) = Inr r"
  by (induction r) (simp_all add: writer_text_def)

lemma writerows_text: "writerows fstr (map (map PyStr) rows) = (rows, None)"
  by (induction rows) (simp_all add: writerow_text)

lemma read_rows_result:
  "read_rows raw = (if list_ex oversized raw then Inl csv_Error else Inr (map (map reread) raw))"
  by (induction raw) (simp_all add: read_row_def)

lemma update_rows_no_target:
  "list_all (\<lambda>r. \<not> update_target (pid e) r) rows \<Longrightarrow>
   update_rows e (map (map PyStr) rows) =
     (if rows = [] then Inr []
      else if int_str_ok (pid e) then (if [] \<in> set rows then Inl IndexError else Inr (map (map PyStr) rows))
      else if hd rows = [] then Inl IndexError else Inl ValueError)"
proof (induction rows)
  case Nil
  then show ?case by simp
next
  case (Cons r rows)
  then show ?case
    by (cases r; cases rows) (auto simp: update_target_def)
qed

lemma blank_read: "([] \<in> set (map (map reread) raw)) = ([] \<in> set raw)"
  by (induction raw) auto

lemma list_update_Cons_numeral:
  "(x # xs)[numeral v := y] = x # xs[numeral v - 1 := y]"
  by (simp add: numeral_eq_Suc)

lemma row8_shape:
  assumes "8 \<le> length (r :: 'a list)"
  obtains c0 c1 c2 c3 c4 c5 c6 c7 rest where "r = c0 # c1 # c2 # c3 # c4 # c5 # c6 # c7 # rest"
proof -
  from assms obtain c0 r1 where 1: "r = c0 # r1" "7 \<le> length r1" by (cases r) auto
  then obtain c1 r2 where 2: "r1 = c1 # r2" "6 \<le> length r2" by (cases r1) auto
  then obtain c2 r3 where 3: "r2 = c2 # r3" "5 \<le> length r3" by (cases r2) auto
  then obtain c3 r4 where 4: "r3 = c3 # r4" "4 \<le> length r4" by (cases r3) auto
  then obtain c4 r5 where 5: "r4 = c4 # r5" "3 \<le> length r5" by (cases r4) auto
  then obtain c5 r6 where 6: "r5 = c5 # r6" "2 \<le> length r6" by (cases r5) auto
  then obtain c6 r7 where 7: "r6 = c6 # r7" "1 \<le> length r7" by (cases r6) auto
  then obtain c7 r8 where 8: "r7 = c7 # r8" by (cases r7) auto
  show ?thesis using that 1 2 3 4 5 6 7 8 by simp
qed

lemma as_read_map: "as_read r \<Longrightarrow> map reread r = r"
  by (induction r) (simp_all add: as_read_def)

lemma as_read_rows: "list_all as_read rows \<Longrightarrow> map (map reread) rows = rows"
  by (induction rows) (simp_all add: as_read_map)

lemma as_read_reread: "as_read (map reread r)"
  by (induction r) (simp_all add: as_read_def reread_again)

lemma writer_text_simps:
  "writer_text fstr (PyStr s) = Inr s"
  "writer_text fstr PyNone = Inr []"
  "writer_text fstr (PyBool b) = Inr (str_bool b)"
  "writer_text fstr (PyInt i) = (if int_str_ok i then Inr (str_int i) else Inl ValueError)"
  "writer_text fstr (PyFloat x) = Inr (fstr x)"
  by (simp_all add: writer_text_def)

lemma writer_text_val: "writer_text fstr (text_val v) = Inr (case v of None \<Rightarrow> [] | Some s \<Rightarrow> s)"
  by (cases v) (simp_all add: text_val_def writer_text_def)

lemma writerow_target:
  assumes "8 \<le> length r"
  shows "writerow fstr (assign_cells e (map PyStr r))
     = (if int_str_ok (inventory e) then Inr (entity_cells fstr e r) else Inl ValueError)"
proof -
  from assms obtain c0 c1 c2 c3 c4 c5 c6 c7 rest
    where r: "r = c0 # c1 # c2 # c3 # c4 # c5 # c6 # c7 # rest" by (rule row8_shape)
  show ?thesis
    unfolding r entity_cells_def assign_cells_def
    by (simp add: list_update_Cons_numeral writer_text_simps writer_text_val writerow_text)
qed

lemma update_write:
  "update_rows e (map (map PyStr) rows) = Inr vals \<Longrightarrow>
   writerows fstr vals =
     (written_rows fstr e rows,
      if list_ex (update_target (pid e)) rows \<and> \<not> int_str_ok (inventory e)
      then Some ValueError else None)"
proof (induction rows arbitrary: vals)
  case Nil
  then show ?case by simp
next
  case (Cons r rows)
  show ?case
  proof (cases r)
    case Nil
    with Cons.prems show ?thesis by simp
  next
    case (Cons c cs)
    show ?thesis
    proof (cases "update_target (pid e) r")
      case True
      with Cons have ok: "int_str_ok (pid e)" and c: "c = str_int (pid e)"
        by (simp_all add: update_target_def)
      with Cons.prems Cons have len: "8 \<le> length r" and
        vals: "vals = assign_cells e (map PyStr r) # map (map PyStr) rows"
        by (auto split: if_splits)
      show ?thesis
        unfolding vals using True
        by (simp add: writerow_target [OF len] writerows_text)
    next
      case False
      with Cons have ne: "\<not> (int_str_ok (pid e) \<and> c = str_int (pid e))"
        by (simp add: update_target_def)
      with Cons.prems Cons obtain vs where vs: "update_rows e (map (map PyStr) rows) = Inr vs"
        and vals: "vals = map PyStr r # vs"
        by (auto split: if_splits sum.splits)
      from Cons.IH [OF vs] show ?thesis
        unfolding vals using False by (simp add: writerow_text)
    qed
  qed
qed

lemma entity_cells_reread:
  assumes "8 \<le> length r" and "as_read r"
  shows "entity_cells fstr e (map reread (entity_cells fstr e r)) = entity_cells fstr e r"
    and "hd (map reread (entity_cells fstr e r)) = hd r"
    and "length (map reread (entity_cells fstr e r)) = length r"
proof -
  from assms(1) obtain c0 c1 c2 c3 c4 c5 c6 c7 rest
    where r: "r = c0 # c1 # c2 # c3 # c4 # c5 # c6 # c7 # rest" by (rule row8_shape)
  from assms(2) have rr: "reread c0 = c0" "reread c6 = c6" "map reread rest = rest"
    unfolding r using as_read_map [of rest] by (simp_all add: as_read_def)
  show "entity_cells fstr e (map reread (entity_cells fstr e r)) = entity_cells fstr e r"
    unfolding r entity_cells_def by (simp add: list_update_Cons_numeral rr)
  show "hd (map reread (entity_cells fstr e r)) = hd r"
    unfolding r entity_cells_def by (simp add: list_update_Cons_numeral rr)
  show "length (map reread (entity_cells fstr e r)) = length r"
    by (simp add: entity_cells_def)
qed

lemma second_pass:
  assumes "list_all as_read rows" and "update_rows e (map (map PyStr) rows) = Inr vals"
  shows "(\<exists>vals2. update_rows e (map (map PyStr) (map (map reread) (written_rows fstr e rows)))
            = Inr vals2) \<and>
     written_rows fstr e (map (map reread) (written_rows fstr e rows)) = written_rows fstr e rows"
  using assms
proof (induction rows arbitrary: vals)
  case Nil
  then show ?case by simp
next
  case (Cons r rows)
  from Cons.prems(1) have ar: "as_read r" and ars: "list_all as_read rows" by simp_all
  show ?case
  proof (cases r)
    case Nil
    with Cons.prems show ?thesis by simp
  next
    case (Cons c cs)
    show ?thesis
    proof (cases "update_target (pid e) r")
      case True
      with Cons have ok: "int_str_ok (pid e)" and c: "c = str_int (pid e)"
        by (simp_all add: update_target_def)
      with Cons.prems Cons have len: "8 \<le> length r" by (auto split: if_splits)
      note ec = entity_cells_reread [OF len ar, of fstr e]
      obtain d ds where d: "map reread (entity_cells fstr e r) = d # ds"
        using ec(3) len by (cases "map reread (entity_cells fstr e r)") auto
      with ec(2) Cons have dc: "d = c" by simp
      have tgt: "update_target (pid e) (map reread (entity_cells fstr e r))"
        unfolding d using dc ok c by (simp add: update_target_def)
      have len2: "\<not> length (d # ds) < 8" using ec(3) len d by simp
      show ?thesis
      proof (cases "int_str_ok (inventory e)")
        case inv: True
        have "update_rows e (map (map PyStr) (map (map reread) (entity_cells fstr e r # rows)))
            = Inr (assign_cells e (map PyStr (d # ds)) # map (map PyStr) rows)"
          using d dc ok c len2 as_read_rows [OF ars] by simp
        moreover have "written_rows fstr e (map (map reread) (entity_cells fstr e r # rows))
            = entity_cells fstr e r # rows"
          using tgt inv ec(1) as_read_rows [OF ars] by simp
        ultimately show ?thesis using True inv by simp
      next
        case False
        with True show ?thesis by simp
      qed
    next
      case False
      with Cons have ne: "\<not> (int_str_ok (pid e) \<and> c = str_int (pid e))"
        by (simp add: update_target_def)
      with Cons.prems Cons obtain vs where vs: "update_rows e (map (map PyStr) rows) = Inr vs"
        and ok: "int_str_ok (pid e)"
        by (auto split: if_splits sum.splits)
      from Cons.IH [OF ars vs] obtain vals2 where
        v2: "update_rows e (map (map PyStr) (map (map reread) (written_rows fstr e rows))) = Inr vals2"
        and w2: "written_rows fstr e (map (map reread) (written_rows fstr e rows)) = written_rows fstr e rows"
        by blast
      have rr: "map reread r = r" using ar by (rule as_read_map)
      show ?thesis
        using False v2 w2 rr Cons ne ok by simp
    qed
  qed
qed

lemma update_file_cases:
  obtains (untouched) m where "update_file fstr e fs = (fs, [Print m])"
  | (written) t raw vals where "fs = File True True t raw" "\<not> list_ex oversized raw"
      "update_rows e (map (map PyStr) (map (map reread) raw)) = Inr vals"
      "update_file fstr e fs =
         (File True True True (written_rows fstr e (map (map reread) raw)),
          Rewrite # (if list_ex (update_target (pid e)) (map (map reread) raw) \<and> \<not> int_str_ok (inventory e)
                     then [update_handler ValueError] else []))"
proof (cases fs)
  case NoDirectory
  then have "update_file fstr e fs = (fs, [Print ProductFileNotFound])"
    by (simp add: update_file_def open_read_def update_handler_def)
  then show ?thesis by (rule untouched)
next
  case (NoFile c)
  then have "update_file fstr e fs = (fs, [Print ProductFileNotFound])"
    by (simp add: update_file_def open_read_def update_handler_def)
  then show ?thesis by (rule untouched)
next
  case (File rd wr t raw)
  show ?thesis
  proof (cases "rd \<and> wr \<and> \<not> list_ex oversized raw")
    case False
    with File have "\<exists>m. update_file fstr e fs = (fs, [Print m])"
      by (auto simp: update_file_def open_read_def open_write_def read_rows_result update_handler_def
          split: sum.splits)
    then show ?thesis using untouched by blast
  next
    case True
    show ?thesis
    proof (cases "update_rows e (map (map PyStr) (map (map reread) raw))")
      case (Inl x)
      with File True have "\<exists>m. update_file fstr e fs = (fs, [Print m])"
        by (simp add: update_file_def open_read_def read_rows_result update_handler_def del: map_map)
      then show ?thesis using untouched by blast
    next
      case (Inr vals)
      have "update_file fstr e fs =
         (File True True True (written_rows fstr e (map (map reread) raw)),
          Rewrite # (if list_ex (update_target (pid e)) (map (map reread) raw) \<and> \<not> int_str_ok (inventory e)
                     then [update_handler ValueError] else []))"
        using File True Inr update_write [OF Inr, of fstr]
        by (simp add: update_file_def open_read_def open_write_def read_rows_result del: map_map)
      with File True Inr show ?thesis by (intro written [of t raw vals]) simp_all
    qed
  qed
qed

lemma list_all_as_read: "list_all as_read (map (map reread) raw)"
  by (induction raw) (simp_all add: as_read_reread)

lemma update_file_again:
  "fst (update_file fstr e (fst (update_file fstr e fs))) = fst (update_file fstr e fs)"
proof (cases rule: update_file_cases [of fstr e fs])
  case (untouched m)
  then show ?thesis by simp
next
  case (written t raw vals)
  define W where "W = written_rows fstr e (map (map reread) raw)"
  have fs1: "fst (update_file fstr e fs) = File True True True W"
    using written(4) by (simp add: W_def)
  have sp: "written_rows fstr e (map (map reread) W) = W"
    unfolding W_def using second_pass [OF list_all_as_read written(3), of fstr] by blast
  show ?thesis
  proof (cases rule: update_file_cases [of fstr e "File True True True W"])
    case (untouched m)
    then show ?thesis using fs1 by simp
  next
    case (written t' raw' vals')
    then show ?thesis using fs1 sp by simp
  qed
qed

lemma written_rows_no_target:
  "\<not> list_ex (update_target (pid e)) rows \<Longrightarrow> written_rows fstr e rows = rows"
  by (induction rows) simp_all

lemma update_file_again_full:
  assumes "snd (update_file fstr e fs) = [Rewrite]"
    and "\<not> list_ex oversized (stored_rows (fst (update_file fstr e fs)))"
  shows "update_file fstr e (fst (update_file fstr e fs)) = update_file fstr e fs"
proof (cases rule: update_file_cases [of fstr e fs])
  case (untouched m)
  with assms(1) show ?thesis by simp
next
  case (written t raw vals)
  define rows where "rows = map (map reread) raw"
  define W where "W = written_rows fstr e rows"
  have ar: "list_all as_read rows" unfolding rows_def by (rule list_all_as_read)
  from written(4) assms(1) have quiet: "\<not> (list_ex (update_target (pid e)) rows \<and> \<not> int_str_ok (inventory e))"
    by (auto simp: rows_def split: if_splits)
  with written(4) have first: "update_file fstr e fs = (File True True True W, [Rewrite])"
    by (simp add: W_def rows_def)
  with assms(2) have no: "\<not> list_ex oversized W" by simp
  from second_pass [OF ar written(3) [folded rows_def], of fstr]
  obtain vals2 where v2: "update_rows e (map (map PyStr) (map (map reread) W)) = Inr vals2"
    and w2: "written_rows fstr e (map (map reread) W) = W"
    unfolding W_def by blast
  have quiet2: "\<not> (list_ex (update_target (pid e)) (map (map reread) W) \<and> \<not> int_str_ok (inventory e))"
  proof (cases "int_str_ok (inventory e)")
    case True
    then show ?thesis by simp
  next
    case False
    with quiet have nt: "\<not> list_ex (update_target (pid e)) rows" by simp
    then have "W = rows" unfolding W_def by (rule written_rows_no_target)
    then have "map (map reread) W = rows" using as_read_rows [OF ar] by simp
    with nt show ?thesis by simp
  qed
  have "writerows fstr vals2 = (W, None)"
    using update_write [OF v2, of fstr] w2 quiet2 by auto
  then have "update_file fstr e (File True True True W) = (File True True True W, [Rewrite])"
    using no v2
    by (simp add: update_file_def open_read_def open_write_def read_rows_result del: map_map)
  with first show ?thesis by simp
qed

lemma DictReader_row8:
  "DictReader_row product_columns (c0 # c1 # c2 # c3 # c4 # c5 # c6 # c7 # rest) =
     [''pid'' \<mapsto> Some c0, ''is_active'' \<mapsto> Some c1, ''inventory'' \<mapsto> Some c2,
      ''pname'' \<mapsto> Some c3, ''pdescription'' \<mapsto> Some c4, ''pprice'' \<mapsto> Some c5,
      ''added_date'' \<mapsto> Some c6, ''ptags'' \<mapsto> Some c7]"
  by (simp add: DictReader_row_def product_columns_def)

lemma hydrate_row8:
  "hydrate fparse (DictReader_row product_columns (c0 # c1 # c2 # c3 # c4 # c5 # c6 # c7 # rest)) =
     bind_exc (int_cell (Some c0)) (\<lambda>p.
     bind_exc (int_cell (Some c2)) (\<lambda>i.
     bind_exc (float_cell fparse (Some c5)) (\<lambda>pr.
       Inr (from_existing p (c1 = ''True'') i (Some c3) (Some c4) pr (Some c6) (Some c7)))))"
  by (simp add: DictReader_row8 hydrate_def getitem_def bind_exc_def split: sum.splits)

lemma fold_zip_other:
  "k \<notin> set ks \<Longrightarrow> fold (\<lambda>(k, v) d. d(k \<mapsto> Some v)) (zip ks vs) d k = d k"
proof (induction ks arbitrary: vs d)
  case Nil
  then show ?case by simp
next
  case (Cons a ks)
  then show ?case by (cases vs) auto
qed

lemma fold_none_other:
  "k \<notin> set ks \<Longrightarrow> fold (\<lambda>k d. d(k \<mapsto> None)) ks d k = d k"
  by (induction ks arbitrary: d) auto

lemma getitem_pid:
  "getitem (DictReader_row product_columns (c # cs)) ''pid'' = Inr (Some c)"
proof -
  let ?names = "[''is_active'', ''inventory'', ''pname'', ''pdescription'', ''pprice'',
      ''added_date'', ''ptags'']"
  have away: "''pid'' \<notin> set ?names" by simp
  have "''pid'' \<notin> set (drop (length cs) ?names)"
    using away set_drop_subset [of "length cs" ?names] by blast
  then have "DictReader_row product_columns (c # cs) ''pid''
      = fold (\<lambda>(k, v) d. d(k \<mapsto> Some v)) (zip ?names cs) [''pid'' \<mapsto> Some c] ''pid''"
    by (simp add: DictReader_row_def product_columns_def fold_none_other)
  also have "\<dots> = Some (Some c)"
    using fold_zip_other [OF away, of cs "[''pid'' \<mapsto> Some c]"] by simp
  finally show ?thesis by (simp add: getitem_def)
qed

lemma int_cell_str_int: "int_str_ok n \<Longrightarrow> int_cell (Some (str_int n)) = Inr n"
  by (simp add: int_cell_def py_int_str_int)

lemma canonical_id_Cons:
  "canonical_id (c # cs) \<Longrightarrow> \<exists>n. c = str_int n \<and> int_cell (Some c) = Inr n \<and> int_str_ok n"
  using py_int_canonical
  by (fastforce simp: canonical_id_def int_cell_def split: option.splits)

lemma plain_text_reread: "plain_text s \<Longrightarrow> reread s = s"
  by (simp add: plain_text_def reread_plain)

lemma plain_row_reread: "plain_row r \<Longrightarrow> map reread r = r"
  by (induction r) (simp_all add: plain_row_def plain_text_reread)

lemma plain_row_size: "plain_row r \<Longrightarrow> \<not> oversized r"
  by (induction r) (auto simp: plain_row_def oversized_def plain_text_def reread_plain)

lemma read_row_plain: "plain_row r \<Longrightarrow> read_row r = Inr r"
  by (simp add: read_row_def plain_row_size plain_row_reread)

lemma plain_row_read: "\<not> oversized r \<Longrightarrow> plain_row (map reread r)"
  by (induction r) (auto simp: plain_row_def oversized_def plain_text_def reread_no_cr)

lemma plain_rows_read: "\<not> list_ex oversized raw \<Longrightarrow> list_all plain_row (map (map reread) raw)"
  by (induction raw) (simp_all add: plain_row_read)

lemma scan_rows_read:
  "\<not> list_ex oversized raw \<Longrightarrow>
   scan_rows fparse h p (map (map reread) raw) = scan_rows fparse h p raw"
proof (induction raw)
  case Nil
  then show ?case by simp
next
  case (Cons r raw)
  then have no: "\<not> oversized r" by simp
  have a: "read_row r = Inr (map reread r)" using no by (simp add: read_row_def)
  have "read_row (map reread r) = Inr (map reread (map reread r))"
    using plain_row_read [OF no] by (simp add: read_row_def plain_row_size)
  then have b: "read_row (map reread r) = Inr (map reread r)"
    using plain_row_reread [OF plain_row_read [OF no]] by simp
  from Cons a b show ?case by (auto simp: Let_def simp del: map_map split: sum.splits)
qed

lemma plain_text_str_int: "int_str_ok n \<Longrightarrow> plain_text (str_int n)"
proof -
  assume "int_str_ok n"
  then have "int (length (str_nat (nat \<bar>n\<bar>))) \<le> 4300"
    by (simp add: int_str_ok_def int_max_str_digits_def)
  moreover have "length (str_int n) \<le> length (str_nat (nat \<bar>n\<bar>)) + 1"
    by (cases "n < 0") (simp_all add: str_int_def abs_if)
  ultimately show ?thesis
    by (simp add: plain_text_def str_int_no_cr field_size_limit_def)
qed

lemma plain_text_str_bool: "plain_text (str_bool b)"
  by (simp add: plain_text_def str_bool_def field_size_limit_def)

lemma scan_after_update:
  assumes "list_all plain_row drows"
    and "list_all canonical_id drows"
    and "scan_rows fparse product_columns (pid e) drows = Inr (Some e)"
    and "update_rows e' (map (map PyStr) drows) = Inr vals"
    and ok: "int_str_ok (inventory e')"
    and same: "pid e' = pid e" "added_date e' = added_date e"
    and t1: "kept_or_plain (pname e') (pname e)"
    and t2: "kept_or_plain (pdescription e') (pdescription e)"
    and t3: "kept_or_plain (ptags e') (ptags e)"
    and pr: "fparse (fstr (pprice e')) = Some (pprice e')" "plain_text (fstr (pprice e'))"
  shows "scan_rows fparse product_columns (pid e) (written_rows fstr e' drows) = Inr (Some e')"
  using assms(1-4)
proof (induction drows arbitrary: vals)
  case Nil
  then show ?case by simp
next
  case (Cons r rows)
  from Cons.prems(1) have pr_r: "plain_row r" and pl: "list_all plain_row rows" by simp_all
  from Cons.prems(2) have can: "list_all canonical_id rows" by simp
  have rd: "read_row r = Inr r" using pr_r by (rule read_row_plain)
  show ?case
  proof (cases r)
    case Nil
    with Cons.prems show ?thesis by simp
  next
    case (Cons c cs)
    with Cons.prems(2) obtain n where n: "c = str_int n" "int_cell (Some c) = Inr n" "int_str_ok n"
      using canonical_id_Cons by auto
    have pidcell: "bind_exc (getitem (DictReader_row product_columns (c # cs)) ''pid'') int_cell = Inr n"
      by (simp add: getitem_pid bind_exc_def n(2))
    show ?thesis
    proof (cases "n = pid e")
      case True
      then have tgt: "update_target (pid e') r"
        using Cons n same(1) by (simp add: update_target_def)
      with Cons.prems(4) Cons n True same(1) have len: "8 \<le> length r"
        by (auto split: if_splits)
      then obtain c0 c1 c2 c3 c4 c5 c6 c7 rest
        where r: "r = c0 # c1 # c2 # c3 # c4 # c5 # c6 # c7 # rest" by (rule row8_shape)
      with Cons have c0: "c0 = c" by simp
      have hyd: "hydrate fparse (DictReader_row product_columns r) = Inr e"
        using Cons.prems(3) Cons pidcell True rd by (simp split: sum.splits)
      then have fields: "pname e = Some c3" "pdescription e = Some c4" "added_date e = Some c6"
          "ptags e = Some c7"
        unfolding r hydrate_row8
        by (auto simp: bind_exc_def from_existing_def split: sum.splits)
      from pr_r have cells: "plain_text c0" "plain_text c3" "plain_text c4" "plain_text c6"
          "plain_text c7" "list_all plain_text rest"
        unfolding r by (simp_all add: plain_row_def)
      define n3 where "n3 = (case pname e' of None \<Rightarrow> [] | Some s \<Rightarrow> s)"
      define n4 where "n4 = (case pdescription e' of None \<Rightarrow> [] | Some s \<Rightarrow> s)"
      define n7 where "n7 = (case ptags e' of None \<Rightarrow> [] | Some s \<Rightarrow> s)"
      have p3: "plain_text n3 \<and> pname e' = Some n3"
        using t1 fields(1) cells by (auto simp: kept_or_plain_def n3_def split: option.splits)
      have p4: "plain_text n4 \<and> pdescription e' = Some n4"
        using t2 fields(2) cells by (auto simp: kept_or_plain_def n4_def split: option.splits)
      have p7: "plain_text n7 \<and> ptags e' = Some n7"
        using t3 fields(4) cells by (auto simp: kept_or_plain_def n7_def split: option.splits)
      define new where "new = c0 # str_bool (is_active e') # str_int (inventory e') # n3 # n4 #
          fstr (pprice e') # c6 # n7 # rest"
      have ec: "entity_cells fstr e' r = new"
        unfolding r entity_cells_def new_def n3_def n4_def n7_def
        by (simp add: list_update_Cons_numeral)
      have "plain_row new"
        unfolding new_def plain_row_def
        using cells p3 p4 p7 pr(2) plain_text_str_int [OF ok] plain_text_str_bool by simp
      then have rdn: "read_row new = Inr new" by (rule read_row_plain)
      have hn: "hydrate fparse (DictReader_row product_columns new) = Inr e'"
        unfolding new_def hydrate_row8
        using n c0 True same fields p3 p4 p7 pr(1) int_cell_str_int [OF ok]
        by (simp add: bind_exc_def float_cell_def from_existing_def str_bool_True)
      have pn: "bind_exc (getitem (DictReader_row product_columns new) ''pid'') int_cell = Inr (pid e)"
        unfolding new_def using n c0 True by (simp add: getitem_pid bind_exc_def)
      have "written_rows fstr e' (r # rows) = new # rows"
        using tgt ok ec by simp
      then show ?thesis
        using rdn hn pn by (simp add: new_def)
    next
      case False
      then have "c \<noteq> str_int (pid e')" using n same(1) str_int_inject by auto
      then have nt: "\<not> update_target (pid e') r" using Cons by (simp add: update_target_def)
      with Cons.prems(4) Cons obtain vs where vs: "update_rows e' (map (map PyStr) rows) = Inr vs"
        by (auto simp: update_target_def split: if_splits sum.splits)
      have "scan_rows fparse product_columns (pid e) rows = Inr (Some e)"
        using Cons.prems(3) Cons pidcell False rd by simp
      with pl can have "scan_rows fparse product_columns (pid e) (written_rows fstr e' rows) = Inr (Some e')"
        using vs by (rule Cons.IH)
      then show ?thesis using nt Cons pidcell False rd by simp
    qed
  qed
qed

lemma scan_target:
  assumes "list_all plain_row drows" and "list_all canonical_id drows"
    and "scan_rows fparse product_columns p drows = Inr (Some e)"
  shows "list_ex (update_target p) drows"
  using assms
proof (induction drows)
  case Nil
  then show ?case by simp
next
  case (Cons r rows)
  from Cons.prems(1) have rd: "read_row r = Inr r" by (simp add: read_row_plain)
  show ?case
  proof (cases r)
    case Nil
    with Cons rd show ?thesis by simp
  next
    case (Cons c cs)
    with Cons.prems(2) obtain n where n: "c = str_int n" "int_cell (Some c) = Inr n" "int_str_ok n"
      using canonical_id_Cons by auto
    have pidcell: "bind_exc (getitem (DictReader_row product_columns (c # cs)) ''pid'') int_cell = Inr n"
      by (simp add: getitem_pid bind_exc_def n(2))
    show ?thesis
    proof (cases "n = p")
      case True
      with n Cons show ?thesis by (simp add: update_target_def)
    next
      case False
      with Cons.prems Cons pidcell rd have "scan_rows fparse product_columns p rows = Inr (Some e)"
        by simp
      with Cons.IH Cons.prems show ?thesis by simp
    qed
  qed
qed

lemma header_not_target: "\<not> update_target p product_columns"
  using str_int_not_pid [of p] by (auto simp: update_target_def product_columns_def)

lemma plain_row_columns: "plain_row product_columns"
  by (simp add: plain_row_def plain_text_def product_columns_def field_size_limit_def)

lemma commit_read_back:
  assumes own: "own_format fs" and sync: "in_sync fparse e fs"
    and up: "snd (update_file fstr e' fs) = [Rewrite]"
    and same: "pid e' = pid e" "added_date e' = added_date e"
    and t1: "kept_or_plain (pname e') (pname e)"
    and t2: "kept_or_plain (pdescription e') (pdescription e)"
    and t3: "kept_or_plain (ptags e') (ptags e)"
    and pr: "fparse (fstr (pprice e')) = Some (pprice e')" "plain_text (fstr (pprice e'))"
  shows "get_product fparse (pid e) (fst (update_file fstr e' fs)) = (Some e', [])"
proof (cases rule: update_file_cases [of fstr e' fs])
  case (untouched m)
  with up show ?thesis by simp
next
  case (written t raw vals)
  define rows where "rows = map (map reread) raw"
  from own written(1,2) have rr: "read_rows raw = Inr rows"
    by (simp add: read_rows_result rows_def)
  with own written(1) obtain drows where rows: "rows = product_columns # drows"
    and can: "list_all canonical_id drows"
    by (auto simp: own_format_def open_read_def split: list.splits)
  from rows obtain h d_raw where raw: "raw = h # d_raw" and h: "map reread h = product_columns"
    and dr: "drows = map (map reread) d_raw"
    unfolding rows_def by (cases raw) auto
  from written(2) raw have no: "\<not> oversized h" "\<not> list_ex oversized d_raw" by simp_all
  have rh: "read_row h = Inr product_columns" using no(1) h by (simp add: read_row_def)
  have pl: "list_all plain_row drows" unfolding dr using no(2) by (rule plain_rows_read)
  have "scan_rows fparse product_columns (pid e) d_raw = Inr (Some e)"
    using sync written(1) raw rh
    by (auto simp: in_sync_def get_product_def open_read_def split: sum.splits option.splits)
  then have sc: "scan_rows fparse product_columns (pid e) drows = Inr (Some e)"
    unfolding dr by (simp only: scan_rows_read [OF no(2)])
  have tgt: "list_ex (update_target (pid e')) drows"
    using scan_target [OF pl can sc] same(1) by simp
  have ok: "int_str_ok (inventory e')"
  proof (rule ccontr)
    assume "\<not> int_str_ok (inventory e')"
    with tgt written(4) up rows show False by (simp add: rows_def [symmetric])
  qed
  from written(3) obtain vs where vs: "update_rows e' (map (map PyStr) drows) = Inr vs"
    unfolding rows_def [symmetric] rows using header_not_target [of "pid e'"]
    by (auto simp: update_target_def product_columns_def split: if_splits sum.splits)
  have after: "scan_rows fparse product_columns (pid e) (written_rows fstr e' drows) = Inr (Some e')"
    using pl can sc vs ok same t1 t2 t3 pr by (rule scan_after_update)
  have W: "written_rows fstr e' rows = product_columns # written_rows fstr e' drows"
    unfolding rows using header_not_target by simp
  have "fst (update_file fstr e' fs) = File True True True (product_columns # written_rows fstr e' drows)"
    using written(4) W by (simp add: rows_def)
  then show ?thesis
    using after read_row_plain [OF plain_row_columns]
    by (simp add: get_product_def open_read_def)
qed

lemma kept: "kept_or_plain v v"
  by (simp add: kept_or_plain_def)

lemma plain: "plain_text s \<Longrightarrow> kept_or_plain (Some s) old"
  by (simp add: kept_or_plain_def)

lemma pid_cell_error:
  "bind_exc (getitem d ''pid'') int_cell = Inl x \<Longrightarrow> x = KeyError \<or> x = TypeError \<or> x = ValueError"
  by (auto simp: bind_exc_def getitem_def int_cell_def split: option.splits sum.splits)

lemma scan_without_target:
  assumes "list_all (\<lambda>r. \<not> lookup_target h p r) (map (map reread) raw)"
  shows "(scan_rows fparse h p raw = Inr None \<and>
          \<not> list_ex oversized raw \<and> list_all (pid_readable h) (map (map reread) raw)) \<or>
         (\<exists>x. scan_rows fparse h p raw = Inl x \<and> x \<noteq> FileNotFoundError \<and>
          (list_ex oversized raw \<or> \<not> list_all (pid_readable h) (map (map reread) raw)))"
  using assms
proof (induction raw)
  case Nil
  then show ?case by simp
next
  case (Cons r raw)
  then have nt: "\<not> lookup_target h p (map reread r)"
    and rest: "list_all (\<lambda>r. \<not> lookup_target h p r) (map (map reread) raw)" by simp_all
  note IH = Cons.IH [OF rest]
  show ?case
  proof (cases "oversized r")
    case True
    then show ?thesis by (simp add: read_row_def)
  next
    case False
    then have rd: "read_row r = Inr (map reread r)" by (simp add: read_row_def)
    show ?thesis
    proof (cases "map reread r = []")
      case True
      with rd False IH show ?thesis by (auto simp: pid_readable_def)
    next
      case ne: False
      show ?thesis
      proof (cases "bind_exc (getitem (DictReader_row h (map reread r)) ''pid'') int_cell")
        case (Inl x)
        with pid_cell_error [OF Inl] rd ne show ?thesis
          by (auto simp: pid_readable_def Let_def)
      next
        case (Inr n)
        with nt ne have "n \<noteq> p" by (auto simp: lookup_target_def)
        with Inr rd ne False IH show ?thesis
          by (auto simp: pid_readable_def Let_def)
      qed
    qed
  qed
qed

lemma writerow_product:
  "writerow fstr (product_row e) =
     (if int_str_ok (pid e) \<and> int_str_ok (inventory e)
      then Inr [str_int (pid e), str_bool (is_active e), str_int (inventory e),
                (case pname e of None \<Rightarrow> [] | Some s \<Rightarrow> s),
                (case pdescription e of None \<Rightarrow> [] | Some s \<Rightarrow> s),
                fstr (pprice e),
                (case added_date e of None \<Rightarrow> [] | Some s \<Rightarrow> s),
                (case ptags e of None \<Rightarrow> [] | Some s \<Rightarrow> s)]
      else Inl ValueError)"
  by (simp add: product_row_def writer_text_simps writer_text_val)

lemma scan_append:
  assumes "\<not> list_ex oversized d_raw"
    and "list_all canonical_id (map (map reread) d_raw)"
    and "list_all (\<lambda>r. \<not> lookup_target product_columns p r) (map (map reread) d_raw)"
    and "read_row r = Inr r" and "r \<noteq> []"
    and "bind_exc (getitem (DictReader_row product_columns r) ''pid'') int_cell = Inr p"
    and "hydrate fparse (DictReader_row product_columns r) = Inr e"
  shows "scan_rows fparse product_columns p (d_raw @ [r]) = Inr (Some e)"
  using assms(1-3)
proof (induction d_raw)
  case Nil
  show ?case using assms(4-7) by simp
next
  case (Cons a d_raw)
  then have rd: "read_row a = Inr (map reread a)" by (simp add: read_row_def)
  from Cons have IH: "scan_rows fparse product_columns p (d_raw @ [r]) = Inr (Some e)" by simp
  show ?case
  proof (cases "map reread a")
    case Nil
    with rd IH show ?thesis by simp
  next
    case (Cons c cs)
    with Cons.prems(2) obtain n where n: "int_cell (Some c) = Inr n"
      using canonical_id_Cons [of c cs] by auto
    have pidcell: "bind_exc (getitem (DictReader_row product_columns (c # cs)) ''pid'') int_cell = Inr n"
      by (simp add: getitem_pid bind_exc_def n)
    from Cons.prems(3) Cons pidcell have "n \<noteq> p" by (auto simp: lookup_target_def)
    with rd Cons pidcell IH show ?thesis by simp
  qed
qed

lemma op_inventory: "0 \<le> inventory e \<Longrightarrow> 0 \<le> inventory (fst (apply_op fstr op e fs))"
  by (cases op)
    (auto simp: set_is_active_def set_pname_def set_pdescription_def set_pprice_def set_ptags_def
       add_inventory_def remove_inventory_def Let_def)

section \<open>Creation\<close>

text \<open>
  C10. There is a file state at the public interface, the product file that exists
  and has zero lines, in which \<^verbatim>\<open>_generate_pid\<close>, and so the constructor, raises
  \<^verbatim>\<open>StopIteration\<close> instead of returning an id: the fallback to 1 is taken only
  when the file does not exist, so creation is not total over file states.
\<close>

theorem create_raises_on_empty_file:
  "generate_pid (File True wr t []) = Inl StopIteration \<and>
   generate_pid (NoFile c) = Inr 1 \<and> generate_pid NoDirectory = Inr 1 \<and>
   Product_init fstr today name descr stock price tags (File True wr t []) = Inl StopIteration"
  by (simp add: generate_pid_def Product_init_def open_read_def)

text \<open>
  C1. Creation is claimed to give, in every prior file state, the id that is the
  number of data rows plus 1. In the file of zero lines that number is 0, and the
  constructor returns no object at all: it raises \<^verbatim>\<open>StopIteration\<close>.
\<close>

theorem create_in_empty_file_yields_no_id:
  "data_row_count empty_file = 0 \<and>
   Product_init whole_price_str ''2024-01-01'' ''Widget'' ''A widget'' 10 9 ''tag1|tag2'' empty_file
     = Inl StopIteration"
  by (simp add: data_row_count_def generate_pid_def Product_init_def open_read_def empty_file_def)

text \<open>
  Whenever \<^verbatim>\<open>_generate_pid\<close> does return, the id is the number of data rows plus 1,
  and 1 when the file does not exist.
\<close>

lemma generated_id:
  assumes g: "generate_pid fs = Inr p"
  shows "p = int (data_row_count fs) + 1"
proof (cases fs)
  case NoDirectory
  with g show ?thesis
    by (simp add: generate_pid_def open_read_def data_row_count_def)
next
  case (NoFile c)
  with g show ?thesis
    by (simp add: generate_pid_def open_read_def data_row_count_def)
next
  case (File rd wr t raw)
  with g obtain h rows where r: "read_rows raw = Inr (h # rows)" and p: "p = int (length rows) + 1"
    by (auto simp: generate_pid_def open_read_def split: if_splits sum.splits list.splits)
  from r have "length raw = length rows + 1" using read_rows_length by fastforce
  with p File show ?thesis by (simp add: data_row_count_def)
qed




text \<open>
  C7. Claimed: for every valid creation input, the row written for the new object
  reads back, through \<^verbatim>\<open>get_product\<close> and its coercions, as an object with the
  same value in every attribute. It fails for a name with a carriage return in it:
  the file is written with \<^verbatim>\<open>newline=""\<close> and read with universal newlines, so
  the name reads back with a line feed in its place.
\<close>

theorem create_round_trip_counterexample:
  "Product_init whole_price_str ''2024-01-01'' cr_name ''A widget'' 10 9 ''tag1|tag2'' (NoFile True)
     = Inr (widget\<lparr>pname := Some cr_name\<rparr>,
            File True True True [product_columns, widget_row[3 := cr_name]], [Append]) \<and>
   get_product whole_price_parse 1 (File True True True [product_columns, widget_row[3 := cr_name]])
     = (Some (widget\<lparr>pname := Some lf_name\<rparr>), []) \<and>
   widget\<lparr>pname := Some lf_name\<rparr> \<noteq> widget\<lparr>pname := Some cr_name\<rparr>"
  by code_simp

text \<open>
  C7, as amended. Let the name, the description, the tags and the date stamp be
  plain texts (no carriage return, within the size limit of a cell), let the price
  read back from its own text, and let the constructor return after an append with
  nothing printed. Then the row written reads back as it was written and hydrates
  to an object with the same value in every attribute. When the file did not exist,
  the file now holds the header and that row, and looking the new id up returns the
  object. When the file was in the program's own format, ended with a line
  terminator and held no row with the new id, the row is its last row and looking
  the new id up returns the object.
\<close>

theorem create_round_trip:
  assumes "plain_text name" and "plain_text descr" and "plain_text tags" and "plain_text today"
    and "price_text_ok fstr fparse price"
    and "Product_init fstr today name descr stock price tags fs = Inr (e, fs', [Append])"
  shows "\<exists>r. writerow fstr (product_row e) = Inr r \<and> read_row r = Inr r \<and>
       hydrate fparse (DictReader_row product_columns r) = Inr e \<and>
       (fs = NoFile True \<longrightarrow> fs' = File True True True [product_columns, r] \<and>
          get_product fparse (pid e) fs' = (Some e, [])) \<and>
       (own_format fs \<and> terminated fs \<and> no_lookup_target (pid e) fs \<longrightarrow>
          stored_rows fs' = stored_rows fs @ [r] \<and>
          get_product fparse (pid e) fs' = (Some e, []))"
proof -
  from assms(6) obtain p where p: "generate_pid fs = Inr p"
    and e: "e = \<lparr>pid = p, is_active = True, inventory = stock, pname = Some name,
        pdescription = Some descr, pprice = price, added_date = Some today, ptags = Some tags\<rparr>"
    and w: "write_to_file fstr e fs = (fs', [Append])"
    by (auto simp: Product_init_def Let_def split: sum.splits)
  from w obtain r where r: "writerow fstr (product_row e) = Inr r"
    by (cases "writerow fstr (product_row e)")
      (auto simp: write_to_file_def Let_def write_handler_def split: sum.splits if_splits)
  then have ok: "int_str_ok (pid e)" "int_str_ok (inventory e)"
    and rdef: "r = [str_int (pid e), str_bool True, str_int stock, name, descr, fstr price, today, tags]"
    unfolding writerow_product using e by (auto split: if_splits)
  have "plain_row r"
    unfolding rdef plain_row_def
    using assms(1-5) ok e plain_text_str_int plain_text_str_bool
    by (simp add: price_text_ok_def)
  then have rd: "read_row r = Inr r" by (rule read_row_plain)
  have hyd: "hydrate fparse (DictReader_row product_columns r) = Inr e"
    unfolding rdef hydrate_row8
    using ok e assms(5)
    by (simp add: bind_exc_def int_cell_str_int float_cell_def from_existing_def str_bool_True
        price_text_ok_def)
  have pidcell: "bind_exc (getitem (DictReader_row product_columns r) ''pid'') int_cell = Inr (pid e)"
    unfolding rdef using ok by (simp add: getitem_pid bind_exc_def int_cell_str_int)
  have ne: "r \<noteq> []" by (simp add: rdef)
  have rc: "read_row product_columns = Inr product_columns"
    using plain_row_columns by (rule read_row_plain)
  have new: "fs' = File True True True [product_columns, r] \<and>
      get_product fparse (pid e) fs' = (Some e, [])" if "fs = NoFile True"
  proof -
    from w that r have fs': "fs' = File True True True [product_columns, r]"
      by (simp add: write_to_file_def file_exists_def open_read_def open_append_def append_line_def)
    then show ?thesis
      using rc rd ne pidcell hyd by (simp add: get_product_def open_read_def)
  qed
  have old: "stored_rows fs' = stored_rows fs @ [r] \<and>
      get_product fparse (pid e) fs' = (Some e, [])"
    if own: "own_format fs" and t: "terminated fs" and nt: "no_lookup_target (pid e) fs"
  proof -
    from own obtain rd' wr t' raw where fs: "fs = File rd' wr t' raw"
      by (cases fs) (auto simp: own_format_def open_read_def)
    with own have rd': "rd'" and no: "\<not> list_ex oversized raw"
      by (auto simp: own_format_def open_read_def read_rows_result split: if_splits)
    from own fs rd' no obtain drows where rows: "map (map reread) raw = product_columns # drows"
      and can: "list_all canonical_id drows"
      by (auto simp: own_format_def open_read_def read_rows_result split: list.splits)
    from rows obtain h d_raw where raw: "raw = h # d_raw" and h: "map reread h = product_columns"
      and dr: "drows = map (map reread) d_raw"
      by (cases raw) auto
    from no raw have noh: "\<not> oversized h" and nod: "\<not> list_ex oversized d_raw" by simp_all
    have rh: "read_row h = Inr product_columns" using noh h by (simp add: read_row_def)
    from w fs rd' t r have fs': "fs' = File rd' wr True (raw @ [r])"
      by (auto simp: write_to_file_def file_exists_def open_read_def open_append_def append_line_def
          write_handler_def split: if_splits)
    from nt fs raw h dr have ntl: "list_all (\<lambda>r. \<not> lookup_target product_columns (pid e) r)
        (map (map reread) d_raw)"
      by (simp add: no_lookup_target_def rows_read_def)
    have "scan_rows fparse product_columns (pid e) (d_raw @ [r]) = Inr (Some e)"
      using nod can [unfolded dr] ntl rd ne pidcell hyd by (rule scan_append)
    then show ?thesis
      using fs' fs raw rh rd' by (simp add: get_product_def open_read_def)
  qed
  from r rd hyd new old show ?thesis by blast
qed

theorem create_round_trip_witness:
  "plain_text ''Widget'' \<and> plain_text ''A widget'' \<and> plain_text ''tag1|tag2'' \<and>
   plain_text ''2024-01-01'' \<and> price_text_ok whole_price_str whole_price_parse 9 \<and>
   Product_init whole_price_str ''2024-01-01'' ''Widget'' ''A widget'' 10 9 ''tag1|tag2'' (NoFile True)
     = Inr (widget, widget_table, [Append]) \<and>
   writerow whole_price_str (product_row widget) = Inr widget_row \<and>
   read_row widget_row = Inr widget_row \<and>
   hydrate whole_price_parse (DictReader_row product_columns widget_row) = Inr widget \<and>
   get_product whole_price_parse (pid widget) widget_table = (Some widget, [])"
proof -
  have p1: "plain_text ''Widget''" by code_simp
  have p2: "plain_text ''A widget''" by code_simp
  have p3: "plain_text ''tag1|tag2''" by code_simp
  have p4: "plain_text ''2024-01-01''" by code_simp
  have p5: "price_text_ok whole_price_str whole_price_parse 9" by code_simp
  have init: "Product_init whole_price_str ''2024-01-01'' ''Widget'' ''A widget'' 10 9 ''tag1|tag2''
      (NoFile True) = Inr (widget, widget_table, [Append])" by code_simp
  from create_round_trip [OF p1 p2 p3 p4 p5 init]
  obtain r where r: "writerow whole_price_str (product_row widget) = Inr r"
      "read_row r = Inr r"
      "hydrate whole_price_parse (DictReader_row product_columns r) = Inr widget"
      "widget_table = File True True True [product_columns, r]"
      "get_product whole_price_parse (pid widget) widget_table = (Some widget, [])"
    by blast
  from r(4) have "r = widget_row" by (simp add: widget_table_def)
  with r p1 p2 p3 p4 p5 init show ?thesis by simp
qed

section \<open>Inventory\<close>

text \<open>
  C2. For an object whose inventory is not negative, every sequence of public
  operations (the five setters, \<^verbatim>\<open>add_inventory\<close>, \<^verbatim>\<open>remove_inventory\<close>, accepted
  or rejected) leaves the inventory not negative.
\<close>

theorem inventory_stays_nonnegative:
  "0 \<le> inventory e \<Longrightarrow> 0 \<le> inventory (fst (apply_ops fstr ops e fs))"
proof (induction ops arbitrary: e fs)
  case Nil
  then show ?case by simp
next
  case (Cons op ops)
  obtain e1 fs1 eff1 where 1: "apply_op fstr op e fs = (e1, fs1, eff1)"
    by (cases "apply_op fstr op e fs")
  obtain e2 fs2 eff2 where 2: "apply_ops fstr ops e1 fs1 = (e2, fs2, eff2)"
    by (cases "apply_ops fstr ops e1 fs1")
  from 1 Cons.prems have "0 \<le> inventory e1" using op_inventory [of e fstr op fs] by simp
  then have "0 \<le> inventory (fst (apply_ops fstr ops e1 fs1))" by (rule Cons.IH)
  with 1 2 show ?case by simp
qed

theorem inventory_stays_nonnegative_witness:
  "0 \<le> inventory widget \<and>
   0 \<le> inventory (fst (apply_ops whole_price_str
          [RemoveInventory 10, RemoveInventory 1, AddInventory (- 5), SetName ''Gadget'']
          widget widget_table))"
proof -
  have h: "0 \<le> inventory widget" by (simp add: widget_def)
  show ?thesis
    using h inventory_stays_nonnegative [OF h, where fstr = whole_price_str and fs = widget_table
        and ops = "[RemoveInventory 10, RemoveInventory 1, AddInventory (- 5), SetName ''Gadget'']"]
    by simp
qed

text \<open>
  C3. Claimed: a rejected amount leaves object and file as they were and prints the
  diagnostic, and an amount in range changes the inventory by exactly that amount
  and commits. The second part fails: the object is changed, but nothing is stored
  when the row of the object has its id written as \<^verbatim>\<open>01\<close> (the rewrite finds no
  row and reports nothing) and when the file does not exist (a line is printed).
\<close>

theorem inventory_commit_counterexample:
  "in_sync whole_price_parse widget padded_table \<and> inventory widget = 10 \<and>
   add_inventory whole_price_str 5 widget padded_table
     = (widget\<lparr>inventory := 15\<rparr>, padded_table, [Rewrite]) \<and>
   get_product whole_price_parse (pid widget) padded_table = (Some widget, []) \<and>
   add_inventory whole_price_str 5 widget (NoFile True)
     = (widget\<lparr>inventory := 15\<rparr>, NoFile True, [Print ProductFileNotFound]) \<and>
   remove_inventory whole_price_str 5 widget NoDirectory
     = (widget\<lparr>inventory := 5\<rparr>, NoDirectory, [Print ProductFileNotFound])"
  by code_simp

text \<open>
  C3, as amended. \<^verbatim>\<open>add_inventory\<close> with an amount that is not positive, and
  \<^verbatim>\<open>remove_inventory\<close> with an amount that is not positive or exceeds the
  inventory, return the object and the file as they were, with one diagnostic printed
  and no rewrite. With an amount in range the inventory of the object changes by
  exactly that amount and \<^verbatim>\<open>_update_file\<close> is run with the changed object; when
  the table is in the program's own format, the object was in sync with its row, its
  price reads back from its own text and the rewrite is done with nothing printed,
  looking the id up returns the changed object.
\<close>

theorem inventory_change_guarded:
  "(bad \<le> 0 \<longrightarrow> add_inventory fstr bad e fs = (e, fs, [Print CannotAddNonPositive])) \<and>
   (bad \<le> 0 \<or> inventory e < bad \<longrightarrow>
      remove_inventory fstr bad e fs = (e, fs, [Print InvalidRemovalAmount])) \<and>
   (0 < num \<longrightarrow>
      add_inventory fstr num e fs =
        (e\<lparr>inventory := inventory e + num\<rparr>,
         update_file fstr (e\<lparr>inventory := inventory e + num\<rparr>) fs)) \<and>
   (0 < num \<and> num \<le> inventory e \<longrightarrow>
      remove_inventory fstr num e fs =
        (e\<lparr>inventory := inventory e - num\<rparr>,
         update_file fstr (e\<lparr>inventory := inventory e - num\<rparr>) fs)) \<and>
   (0 < num \<and> own_format fs \<and> in_sync fparse e fs \<and> price_text_ok fstr fparse (pprice e) \<and>
    snd (snd (add_inventory fstr num e fs)) = [Rewrite] \<longrightarrow>
      get_product fparse (pid e) (fst (snd (add_inventory fstr num e fs)))
        = (Some (e\<lparr>inventory := inventory e + num\<rparr>), [])) \<and>
   (0 < num \<and> num \<le> inventory e \<and> own_format fs \<and> in_sync fparse e fs \<and>
    price_text_ok fstr fparse (pprice e) \<and>
    snd (snd (remove_inventory fstr num e fs)) = [Rewrite] \<longrightarrow>
      get_product fparse (pid e) (fst (snd (remove_inventory fstr num e fs)))
        = (Some (e\<lparr>inventory := inventory e - num\<rparr>), []))"
proof -
  have 1: "bad \<le> 0 \<longrightarrow> add_inventory fstr bad e fs = (e, fs, [Print CannotAddNonPositive])"
    by (simp add: add_inventory_def)
  have 2: "bad \<le> 0 \<or> inventory e < bad \<longrightarrow>
      remove_inventory fstr bad e fs = (e, fs, [Print InvalidRemovalAmount])"
    by (auto simp: remove_inventory_def)
  have 3: "0 < num \<longrightarrow> add_inventory fstr num e fs =
        (e\<lparr>inventory := inventory e + num\<rparr>,
         update_file fstr (e\<lparr>inventory := inventory e + num\<rparr>) fs)"
    by (simp add: add_inventory_def Let_def)
  have 4: "0 < num \<and> num \<le> inventory e \<longrightarrow> remove_inventory fstr num e fs =
        (e\<lparr>inventory := inventory e - num\<rparr>,
         update_file fstr (e\<lparr>inventory := inventory e - num\<rparr>) fs)"
    by (simp add: remove_inventory_def Let_def)
  have k: "get_product fparse (pid e) (fst (update_file fstr (e\<lparr>inventory := k\<rparr>) fs))
        = (Some (e\<lparr>inventory := k\<rparr>), [])"
    if "own_format fs" "in_sync fparse e fs" "price_text_ok fstr fparse (pprice e)"
      "snd (update_file fstr (e\<lparr>inventory := k\<rparr>) fs) = [Rewrite]" for k
    using that(3) by (intro commit_read_back [OF that(1,2,4)]) (simp_all add: kept price_text_ok_def)
  have 5: "0 < num \<and> own_format fs \<and> in_sync fparse e fs \<and> price_text_ok fstr fparse (pprice e) \<and>
    snd (snd (add_inventory fstr num e fs)) = [Rewrite] \<longrightarrow>
      get_product fparse (pid e) (fst (snd (add_inventory fstr num e fs)))
        = (Some (e\<lparr>inventory := inventory e + num\<rparr>), [])"
    using k [of "inventory e + num"] 3 by auto
  have 6: "0 < num \<and> num \<le> inventory e \<and> own_format fs \<and> in_sync fparse e fs \<and>
    price_text_ok fstr fparse (pprice e) \<and>
    snd (snd (remove_inventory fstr num e fs)) = [Rewrite] \<longrightarrow>
      get_product fparse (pid e) (fst (snd (remove_inventory fstr num e fs)))
        = (Some (e\<lparr>inventory := inventory e - num\<rparr>), [])"
    using k [of "inventory e - num"] 4 by auto
  from 1 2 3 4 5 6 show ?thesis by blast
qed

theorem inventory_change_guarded_witness:
  "(- 1 :: int) \<le> 0 \<and> inventory widget < 11 \<and> (0 :: int) < 3 \<and> 3 \<le> inventory widget \<and>
   own_format widget_table \<and> in_sync whole_price_parse widget widget_table \<and>
   price_text_ok whole_price_str whole_price_parse (pprice widget) \<and>
   add_inventory whole_price_str (- 1) widget widget_table
     = (widget, widget_table, [Print CannotAddNonPositive]) \<and>
   remove_inventory whole_price_str (- 1) widget widget_table
     = (widget, widget_table, [Print InvalidRemovalAmount]) \<and>
   remove_inventory whole_price_str 11 widget widget_table
     = (widget, widget_table, [Print InvalidRemovalAmount]) \<and>
   add_inventory whole_price_str 3 widget widget_table
     = (widget\<lparr>inventory := inventory widget + 3\<rparr>,
        update_file whole_price_str (widget\<lparr>inventory := inventory widget + 3\<rparr>) widget_table) \<and>
   remove_inventory whole_price_str 3 widget widget_table
     = (widget\<lparr>inventory := inventory widget - 3\<rparr>,
        update_file whole_price_str (widget\<lparr>inventory := inventory widget - 3\<rparr>) widget_table) \<and>
   snd (snd (add_inventory whole_price_str 3 widget widget_table)) = [Rewrite] \<and>
   get_product whole_price_parse (pid widget)
       (fst (snd (add_inventory whole_price_str 3 widget widget_table)))
     = (Some (widget\<lparr>inventory := inventory widget + 3\<rparr>), []) \<and>
   snd (snd (remove_inventory whole_price_str 3 widget widget_table)) = [Rewrite] \<and>
   get_product whole_price_parse (pid widget)
       (fst (snd (remove_inventory whole_price_str 3 widget widget_table)))
     = (Some (widget\<lparr>inventory := inventory widget - 3\<rparr>), [])"
proof -
  have n1: "(- 1 :: int) \<le> 0" by simp
  have n2: "inventory widget < 11" by (simp add: widget_def)
  have n3: "(0 :: int) < 3" by simp
  have n4: "3 \<le> inventory widget" by (simp add: widget_def)
  have h1: "own_format widget_table" by code_simp
  have h2: "in_sync whole_price_parse widget widget_table" by code_simp
  have h3: "price_text_ok whole_price_str whole_price_parse (pprice widget)" by code_simp
  have s1: "snd (snd (add_inventory whole_price_str 3 widget widget_table)) = [Rewrite]"
    by code_simp
  have s2: "snd (snd (remove_inventory whole_price_str 3 widget widget_table)) = [Rewrite]"
    by code_simp
  note a = inventory_change_guarded [of "- 1" whole_price_str widget widget_table 3 whole_price_parse]
  note b = inventory_change_guarded [of 11 whole_price_str widget widget_table 3 whole_price_parse]
  show ?thesis
    using n1 n2 n3 n4 h1 h2 h3 s1 s2 a b by blast
qed

section \<open>Rewriting the row\<close>

text \<open>
  C5. Claimed: in every file state, \<^verbatim>\<open>_update_file\<close> for an id that no row holds
  rewrites the file unchanged and reports nothing. It fails when the file does not
  exist (a line is printed and nothing is written) and when the file has a blank row
  (\<^verbatim>\<open>row[0]\<close> raises, a line is printed and nothing is written).
\<close>

theorem rewrite_without_target_counterexample:
  "no_update_target (pid widget) (NoFile True) \<and>
   update_file whole_price_str widget (NoFile True) = (NoFile True, [Print ProductFileNotFound]) \<and>
   no_update_target (pid widget) (File True True True [product_columns, []]) \<and>
   update_file whole_price_str widget (File True True True [product_columns, []])
     = (File True True True [product_columns, []], [Print (UnexpectedError IndexError)])"
  by code_simp

text \<open>
  C5, as amended. When no row has \<^verbatim>\<open>str(pid)\<close> as its first cell, the rows of the
  file read after the call as they did before. The file is rewritten, and nothing is
  printed, when it can be read and written, no cell is over the size limit, no row
  is blank and, unless the file is empty, the id is within the digit limit of
  \<^verbatim>\<open>str\<close>. Otherwise the file is left untouched and one line is printed:
  "Product file not found" when the file or its directory does not exist, the
  I/O error line when a permission is missing, and "Unexpected error" for a blank
  row, an oversized cell or an id over the digit limit.
\<close>

theorem rewrite_without_target:
  assumes "no_update_target (pid e) fs"
  shows "rows_read (fst (update_file fstr e fs)) = rows_read fs \<and>
     update_file fstr e fs =
       (case fs of
          NoDirectory \<Rightarrow> (fs, [Print ProductFileNotFound])
        | NoFile c \<Rightarrow> (fs, [Print ProductFileNotFound])
        | File rd wr t raw \<Rightarrow>
            if \<not> rd then (fs, [Print (UpdateIOError PermissionError)])
            else if list_ex oversized raw then (fs, [Print (UnexpectedError csv_Error)])
            else if raw \<noteq> [] \<and> hd raw = [] then (fs, [Print (UnexpectedError IndexError)])
            else if raw \<noteq> [] \<and> \<not> int_str_ok (pid e) then (fs, [Print (UnexpectedError ValueError)])
            else if [] \<in> set raw then (fs, [Print (UnexpectedError IndexError)])
            else if \<not> wr then (fs, [Print (UpdateIOError PermissionError)])
            else (File rd wr True (map (map reread) raw), [Rewrite]))"
proof (cases fs)
  case NoDirectory
  then show ?thesis by (simp add: update_file_def open_read_def update_handler_def)
next
  case (NoFile c)
  then show ?thesis by (simp add: update_file_def open_read_def update_handler_def)
next
  case (File rd wr t raw)
  with assms have nt: "list_all (\<lambda>r. \<not> update_target (pid e) r) (map (map reread) raw)"
    by (simp add: no_update_target_def rows_read_def)
  define rows where "rows = map (map reread) raw"
  have e1: "(rows = []) = (raw = [])" by (simp add: rows_def)
  have e2: "raw \<noteq> [] \<Longrightarrow> (hd rows = []) = (hd raw = [])"
    by (cases raw) (auto simp: rows_def)
  have e3: "([] \<in> set rows) = ([] \<in> set raw)"
    unfolding rows_def by (rule blank_read)
  have rd: "read_rows raw = (if list_ex oversized raw then Inl csv_Error else Inr rows)"
    by (simp add: read_rows_result rows_def)
  have ur: "update_rows e (map (map PyStr) rows) =
     (if raw = [] then Inr []
      else if int_str_ok (pid e) then (if [] \<in> set raw then Inl IndexError else Inr (map (map PyStr) rows))
      else if hd raw = [] then Inl IndexError else Inl ValueError)"
    using update_rows_no_target [OF nt] e1 e2 e3 unfolding rows_def [symmetric] by auto
  have wr: "writerows fstr (map (map PyStr) rows) = (rows, None)" by (rule writerows_text)
  have up: "update_file fstr e fs =
        (if \<not> rd then (fs, [Print (UpdateIOError PermissionError)])
            else if list_ex oversized raw then (fs, [Print (UnexpectedError csv_Error)])
            else if raw \<noteq> [] \<and> hd raw = [] then (fs, [Print (UnexpectedError IndexError)])
            else if raw \<noteq> [] \<and> \<not> int_str_ok (pid e) then (fs, [Print (UnexpectedError ValueError)])
            else if [] \<in> set raw then (fs, [Print (UnexpectedError IndexError)])
            else if \<not> wr then (fs, [Print (UpdateIOError PermissionError)])
            else (File rd wr True rows, [Rewrite]))"
  proof (cases "raw = []")
    case True
    then have "rows = []" by (simp add: rows_def)
    with True File show ?thesis
      by (simp add: update_file_def open_read_def open_write_def update_handler_def is_IOError_def)
  next
    case False
    then obtain r0 rest where raw: "raw = r0 # rest" by (cases raw) auto
    show ?thesis
      unfolding update_file_def File
      by (simp add: open_read_def open_write_def update_handler_def is_IOError_def rd ur wr False)
        (auto simp: raw)
  qed
  have "rows_read (fst (update_file fstr e fs)) = rows_read fs"
    unfolding up using File by (simp add: rows_read_def rows_def reread_again)
  with up File show ?thesis by (simp add: rows_def)
qed

theorem rewrite_without_target_witness:
  "no_update_target (pid (widget\<lparr>pid := 999\<rparr>)) widget_table \<and>
   rows_read (fst (update_file whole_price_str (widget\<lparr>pid := 999\<rparr>) widget_table))
     = rows_read widget_table \<and>
   update_file whole_price_str (widget\<lparr>pid := 999\<rparr>) widget_table = (widget_table, [Rewrite])"
proof -
  have h: "no_update_target (pid (widget\<lparr>pid := 999\<rparr>)) widget_table" by code_simp
  have c: "update_file whole_price_str (widget\<lparr>pid := 999\<rparr>) widget_table = (widget_table, [Rewrite])"
    by code_simp
  from rewrite_without_target [OF h, of whole_price_str, THEN conjunct1] h c show ?thesis by simp
qed

text \<open>
  C9. Calling \<^verbatim>\<open>set_pname(x)\<close> a second time, on the object and the file the first
  call left, leaves the same object and the same file as the first call did: the
  persisted state after two calls is that after one. This holds in every file state
  and for every object and name, also when a call fails. When the first call has
  rewritten the file with nothing printed and left no cell over the size limit, the
  second call prints nothing either and returns exactly what the first returned.
\<close>

theorem set_pname_twice:
  "fst (set_pname fstr x (fst (set_pname fstr x e fs)) (fst (snd (set_pname fstr x e fs))))
     = fst (set_pname fstr x e fs) \<and>
   fst (snd (set_pname fstr x (fst (set_pname fstr x e fs)) (fst (snd (set_pname fstr x e fs)))))
     = fst (snd (set_pname fstr x e fs)) \<and>
   (snd (snd (set_pname fstr x e fs)) = [Rewrite] \<and>
    \<not> list_ex oversized (stored_rows (fst (snd (set_pname fstr x e fs)))) \<longrightarrow>
      set_pname fstr x (fst (set_pname fstr x e fs)) (fst (snd (set_pname fstr x e fs)))
        = set_pname fstr x e fs)"
  using update_file_again_full [of fstr "e\<lparr>pname := Some x\<rparr>" fs]
  by (simp add: set_pname_def Let_def update_file_again)

theorem set_pname_twice_witness:
  "snd (snd (set_pname whole_price_str ''Gadget'' widget widget_table)) = [Rewrite] \<and>
   \<not> list_ex oversized (stored_rows (fst (snd (set_pname whole_price_str ''Gadget'' widget widget_table)))) \<and>
   set_pname whole_price_str ''Gadget''
       (fst (set_pname whole_price_str ''Gadget'' widget widget_table))
       (fst (snd (set_pname whole_price_str ''Gadget'' widget widget_table)))
     = set_pname whole_price_str ''Gadget'' widget widget_table"
proof -
  have h1: "snd (snd (set_pname whole_price_str ''Gadget'' widget widget_table)) = [Rewrite]"
    by code_simp
  have h2: "\<not> list_ex oversized
      (stored_rows (fst (snd (set_pname whole_price_str ''Gadget'' widget widget_table))))"
    by code_simp
  from set_pname_twice [of whole_price_str "''Gadget''" widget widget_table] h1 h2
  show ?thesis by blast
qed

text \<open>
  C4. Claimed: for an object in sync with its stored row, after a successful
  setter the row read back by id has the new value in the field set and the old
  values elsewhere. It fails where the two paths do not address the same cells:
  \<^verbatim>\<open>get_product\<close> compares \<^verbatim>\<open>int(row["pid"])\<close> and reads columns by name,
  \<^verbatim>\<open>_update_file\<close> compares \<^verbatim>\<open>row[0]\<close> with \<^verbatim>\<open>str(pid)\<close> and writes
  columns by position. With the id stored as \<^verbatim>\<open>01\<close> the rewrite finds no row and
  reports nothing; with two column names exchanged in the first row the new name is
  written under the other name. It fails also for a new name with a carriage return
  in it, which reads back with a line feed in its place.
\<close>

theorem setter_read_back_counterexample:
  "in_sync whole_price_parse widget padded_table \<and>
   set_pname whole_price_str ''Gadget'' widget padded_table
     = (widget\<lparr>pname := Some ''Gadget''\<rparr>, padded_table, [Rewrite]) \<and>
   get_product whole_price_parse (pid widget) padded_table
     \<noteq> (Some (widget\<lparr>pname := Some ''Gadget''\<rparr>), []) \<and>
   in_sync whole_price_parse plain_widget relabelled_table \<and>
   snd (snd (set_pname whole_price_str ''Gadget'' plain_widget relabelled_table)) = [Rewrite] \<and>
   get_product whole_price_parse (pid plain_widget)
       (fst (snd (set_pname whole_price_str ''Gadget'' plain_widget relabelled_table)))
     \<noteq> (Some (plain_widget\<lparr>pname := Some ''Gadget''\<rparr>), []) \<and>
   own_format widget_table \<and> in_sync whole_price_parse widget widget_table \<and>
   snd (snd (set_pname whole_price_str cr_name widget widget_table)) = [Rewrite] \<and>
   get_product whole_price_parse (pid widget)
       (fst (snd (set_pname whole_price_str cr_name widget widget_table)))
     = (Some (widget\<lparr>pname := Some lf_name\<rparr>), []) \<and>
   cr_name \<noteq> lf_name"
  by code_simp

text \<open>
  C4, as amended. Let the table be in the program's own format (the file can be
  read, the first row is the column names, every id cell is the decimal text of an
  integer), let the object be in sync with its stored row, let the prices involved
  read back from their own text, and let the new name, description and tags be plain
  texts (no carriage return, within the size limit of a cell). Then after any of the
  five setters whose rewrite is done with nothing printed, looking the id up returns
  the object with the new value in the field set and every other field, the id and
  the date among them, as before.
\<close>

theorem setter_read_back:
  assumes "own_format fs" and "in_sync fparse e fs"
    and "price_text_ok fstr fparse (pprice e)" and "price_text_ok fstr fparse price"
    and "plain_text name" and "plain_text descr" and "plain_text tags"
  shows
    "(snd (snd (set_is_active fstr active e fs)) = [Rewrite] \<longrightarrow>
        get_product fparse (pid e) (fst (snd (set_is_active fstr active e fs)))
          = (Some (e\<lparr>is_active := active\<rparr>), [])) \<and>
     (snd (snd (set_pname fstr name e fs)) = [Rewrite] \<longrightarrow>
        get_product fparse (pid e) (fst (snd (set_pname fstr name e fs)))
          = (Some (e\<lparr>pname := Some name\<rparr>), [])) \<and>
     (snd (snd (set_pdescription fstr descr e fs)) = [Rewrite] \<longrightarrow>
        get_product fparse (pid e) (fst (snd (set_pdescription fstr descr e fs)))
          = (Some (e\<lparr>pdescription := Some descr\<rparr>), [])) \<and>
     (snd (snd (set_pprice fstr price e fs)) = [Rewrite] \<longrightarrow>
        get_product fparse (pid e) (fst (snd (set_pprice fstr price e fs)))
          = (Some (e\<lparr>pprice := price\<rparr>), [])) \<and>
     (snd (snd (set_ptags fstr tags e fs)) = [Rewrite] \<longrightarrow>
        get_product fparse (pid e) (fst (snd (set_ptags fstr tags e fs)))
          = (Some (e\<lparr>ptags := Some tags\<rparr>), []))"
proof -
  note cr = commit_read_back [OF assms(1,2)]
  have old: "fparse (fstr (pprice e)) = Some (pprice e)" "plain_text (fstr (pprice e))"
    using assms(3) by (simp_all add: price_text_ok_def)
  have new: "fparse (fstr price) = Some price" "plain_text (fstr price)"
    using assms(4) by (simp_all add: price_text_ok_def)
  have a: "snd (update_file fstr (e\<lparr>is_active := active\<rparr>) fs) = [Rewrite] \<Longrightarrow>
      get_product fparse (pid e) (fst (update_file fstr (e\<lparr>is_active := active\<rparr>) fs))
        = (Some (e\<lparr>is_active := active\<rparr>), [])"
    using old by (intro cr) (simp_all add: kept)
  have b: "snd (update_file fstr (e\<lparr>pname := Some name\<rparr>) fs) = [Rewrite] \<Longrightarrow>
      get_product fparse (pid e) (fst (update_file fstr (e\<lparr>pname := Some name\<rparr>) fs))
        = (Some (e\<lparr>pname := Some name\<rparr>), [])"
    using old assms(5) by (intro cr) (simp_all add: kept plain)
  have c: "snd (update_file fstr (e\<lparr>pdescription := Some descr\<rparr>) fs) = [Rewrite] \<Longrightarrow>
      get_product fparse (pid e) (fst (update_file fstr (e\<lparr>pdescription := Some descr\<rparr>) fs))
        = (Some (e\<lparr>pdescription := Some descr\<rparr>), [])"
    using old assms(6) by (intro cr) (simp_all add: kept plain)
  have d: "snd (update_file fstr (e\<lparr>pprice := price\<rparr>) fs) = [Rewrite] \<Longrightarrow>
      get_product fparse (pid e) (fst (update_file fstr (e\<lparr>pprice := price\<rparr>) fs))
        = (Some (e\<lparr>pprice := price\<rparr>), [])"
    using new by (intro cr) (simp_all add: kept)
  have t: "snd (update_file fstr (e\<lparr>ptags := Some tags\<rparr>) fs) = [Rewrite] \<Longrightarrow>
      get_product fparse (pid e) (fst (update_file fstr (e\<lparr>ptags := Some tags\<rparr>) fs))
        = (Some (e\<lparr>ptags := Some tags\<rparr>), [])"
    using old assms(7) by (intro cr) (simp_all add: kept plain)
  show ?thesis
    using a b c d t
    by (simp add: set_is_active_def set_pname_def set_pdescription_def set_pprice_def
        set_ptags_def Let_def)
qed

theorem setter_read_back_witness:
  "own_format widget_table \<and> in_sync whole_price_parse widget widget_table \<and>
   price_text_ok whole_price_str whole_price_parse (pprice widget) \<and>
   price_text_ok whole_price_str whole_price_parse 12 \<and>
   plain_text ''Gadget'' \<and> plain_text ''A gadget'' \<and> plain_text ''new'' \<and>
   snd (snd (set_is_active whole_price_str False widget widget_table)) = [Rewrite] \<and>
   get_product whole_price_parse (pid widget)
       (fst (snd (set_is_active whole_price_str False widget widget_table)))
     = (Some (widget\<lparr>is_active := False\<rparr>), []) \<and>
   snd (snd (set_pname whole_price_str ''Gadget'' widget widget_table)) = [Rewrite] \<and>
   get_product whole_price_parse (pid widget)
       (fst (snd (set_pname whole_price_str ''Gadget'' widget widget_table)))
     = (Some (widget\<lparr>pname := Some ''Gadget''\<rparr>), []) \<and>
   snd (snd (set_pdescription whole_price_str ''A gadget'' widget widget_table)) = [Rewrite] \<and>
   get_product whole_price_parse (pid widget)
       (fst (snd (set_pdescription whole_price_str ''A gadget'' widget widget_table)))
     = (Some (widget\<lparr>pdescription := Some ''A gadget''\<rparr>), []) \<and>
   snd (snd (set_pprice whole_price_str 12 widget widget_table)) = [Rewrite] \<and>
   get_product whole_price_parse (pid widget)
       (fst (snd (set_pprice whole_price_str 12 widget widget_table)))
     = (Some (widget\<lparr>pprice := 12\<rparr>), []) \<and>
   snd (snd (set_ptags whole_price_str ''new'' widget widget_table)) = [Rewrite] \<and>
   get_product whole_price_parse (pid widget)
       (fst (snd (set_ptags whole_price_str ''new'' widget widget_table)))
     = (Some (widget\<lparr>ptags := Some ''new''\<rparr>), [])"
proof -
  have h1: "own_format widget_table" by code_simp
  have h2: "in_sync whole_price_parse widget widget_table" by code_simp
  have h3: "price_text_ok whole_price_str whole_price_parse (pprice widget)" by code_simp
  have h4: "price_text_ok whole_price_str whole_price_parse 12" by code_simp
  have h5: "plain_text ''Gadget''" by code_simp
  have h6: "plain_text ''A gadget''" by code_simp
  have h7: "plain_text ''new''" by code_simp
  have s1: "snd (snd (set_is_active whole_price_str False widget widget_table)) = [Rewrite]"
    by code_simp
  have s2: "snd (snd (set_pname whole_price_str ''Gadget'' widget widget_table)) = [Rewrite]"
    by code_simp
  have s3: "snd (snd (set_pdescription whole_price_str ''A gadget'' widget widget_table)) = [Rewrite]"
    by code_simp
  have s4: "snd (snd (set_pprice whole_price_str 12 widget widget_table)) = [Rewrite]"
    by code_simp
  have s5: "snd (snd (set_ptags whole_price_str ''new'' widget widget_table)) = [Rewrite]"
    by code_simp
  note r = setter_read_back [OF h1 h2 h3 h4 h5 h6 h7, of False]
  show ?thesis
    using h1 h2 h3 h4 h5 h6 h7 s1 s2 s3 s4 s5 r by blast
qed

section \<open>Lookup by id\<close>

text \<open>
  C8. Claimed: in every file state, looking up an id that no row holds returns no
  object and reports not-found. It fails in the table whose row has an id cell
  that is not a number: no row holds the id 999, and the line printed is the one
  for malformed data.
\<close>

theorem lookup_without_target_counterexample:
  "no_lookup_target 999 damaged_table \<and>
   get_product whole_price_parse 999 damaged_table = (None, [Print MalformedData])"
  by code_simp

text \<open>
  C8, as amended. For an id that no row holds, \<^verbatim>\<open>get_product\<close> returns \<^verbatim>\<open>None\<close>
  in every file state and prints exactly one line, so that no exception leaves it.
  When the file or its directory does not exist the line is "Product file not
  found". When the file exists, the line is the not-found one for the product
  exactly when the file can be read to its end, the \<^verbatim>\<open>pid\<close> cell of every row that
  is not blank reads as an integer, and the id is within the digit limit of
  \<^verbatim>\<open>str\<close>; in every other case it is the malformed-data line or the
  unexpected-error line.
\<close>

theorem lookup_without_target:
  assumes "no_lookup_target p fs"
  shows "fst (get_product fparse p fs) = None \<and>
     (case fs of
        File rd wr t raw \<Rightarrow>
          if pids_readable fs \<and> int_str_ok p
          then snd (get_product fparse p fs) = [Print (ProductNotFound p)]
          else snd (get_product fparse p fs) = [Print MalformedData] \<or>
               (\<exists>x. snd (get_product fparse p fs) = [Print (UnexpectedError x)])
      | _ \<Rightarrow> snd (get_product fparse p fs) = [Print ProductFileNotFound])"
proof (cases fs)
  case NoDirectory
  then show ?thesis by (simp add: get_product_def open_read_def get_handler_def)
next
  case (NoFile c)
  then show ?thesis by (simp add: get_product_def open_read_def get_handler_def)
next
  case (File rd wr t raw)
  show ?thesis
  proof (cases rd)
    case False
    with File show ?thesis
      by (simp add: get_product_def open_read_def get_handler_def pids_readable_def)
  next
    case True
    show ?thesis
    proof (cases raw)
      case Nil
      with File True show ?thesis
        by (simp add: get_product_def open_read_def get_handler_def pids_readable_def not_found_def)
    next
      case (Cons first d_raw)
      show ?thesis
      proof (cases "oversized first")
        case ov: True
        with File True Cons show ?thesis
          by (simp add: get_product_def open_read_def get_handler_def pids_readable_def
              read_row_def)
      next
        case ov: False
        then have rd: "read_row first = Inr (map reread first)" by (simp add: read_row_def)
        from assms File Cons
        have nt: "list_all (\<lambda>r. \<not> lookup_target (map reread first) p r) (map (map reread) d_raw)"
          by (simp add: no_lookup_target_def rows_read_def)
        have pr: "pids_readable fs =
            (\<not> list_ex oversized d_raw \<and> list_all (pid_readable (map reread first)) (map (map reread) d_raw))"
          using File True Cons ov
          by (simp add: pids_readable_def open_read_def read_rows_result)
        have gp: "get_product fparse p fs =
            (case scan_rows fparse (map reread first) p d_raw of
               Inr (Some e) \<Rightarrow> (Some e, [])
             | Inr None \<Rightarrow> (None, [not_found p])
             | Inl x \<Rightarrow> (None, [get_handler x]))"
          using File True Cons rd by (simp add: get_product_def open_read_def)
        from scan_without_target [OF nt, of fparse]
        consider (none) "scan_rows fparse (map reread first) p d_raw = Inr None"
            "\<not> list_ex oversized d_raw"
            "list_all (pid_readable (map reread first)) (map (map reread) d_raw)"
          | (raised) x where "scan_rows fparse (map reread first) p d_raw = Inl x"
            "x \<noteq> FileNotFoundError"
            "list_ex oversized d_raw \<or>
              \<not> list_all (pid_readable (map reread first)) (map (map reread) d_raw)"
          by blast
        then show ?thesis
        proof cases
          case none
          then show ?thesis
            using gp pr File by (simp add: not_found_def get_handler_def)
        next
          case (raised x)
          then show ?thesis
            using gp pr File by (auto simp: get_handler_def)
        qed
      qed
    qed
  qed
qed

theorem lookup_without_target_witness:
  "no_lookup_target 999 widget_table \<and> pids_readable widget_table \<and> int_str_ok 999 \<and>
   get_product whole_price_parse 999 widget_table = (None, [Print (ProductNotFound 999)])"
proof -
  have h: "no_lookup_target 999 widget_table" by code_simp
  have r: "pids_readable widget_table" by code_simp
  have k: "int_str_ok 999" by code_simp
  have c: "widget_table = File True True True [product_columns, widget_row]"
    by (simp add: widget_table_def)
  from lookup_without_target [OF h, of whole_price_parse] r k
  have "fst (get_product whole_price_parse 999 widget_table) = None"
    and "snd (get_product whole_price_parse 999 widget_table) = [Print (ProductNotFound 999)]"
    by (simp_all add: c)
  then have "get_product whole_price_parse 999 widget_table = (None, [Print (ProductNotFound 999)])"
    by (simp add: prod_eq_iff)
  with h r k show ?thesis by simp
qed

end
